theory Spec2Isabelle
  imports Complex_Main "HOL-Library.AList"
begin

section \<open>The free proxy pool (\<^verbatim>\<open>free_proxy_manager.py\<close>)\<close>

text \<open>
  Python floats (\<^verbatim>\<open>score\<close>, \<^verbatim>\<open>avg_response_time\<close>, the values of
  \<^verbatim>\<open>time.time()\<close>) are read as real numbers: rounding is not modelled. The two
  counters of a record start at 0 and are only ever incremented, so they are naturals.
\<close>

record ProxyInfo =
  url :: string
  protocol :: string
  ip :: string
  port :: int
  https :: bool
  anonymity :: string
  score :: real
  country :: string
  success_count :: nat
  failure_count :: nat
  last_used :: "real option"
  last_success :: "real option"
  last_failure :: "real option"
  avg_response_time :: real
  is_healthy :: bool

text \<open>The property \<^verbatim>\<open>ProxyInfo.health_score\<close>.\<close>

definition health_score :: "ProxyInfo \<Rightarrow> real" where
  "health_score p =
     (if success_count p + failure_count p = 0 then score p
      else
        let total = success_count p + failure_count p;
            success_rate = real (success_count p) / real total;
            time_penalty = min 1 (avg_response_time p / 10) * (3 / 10)
        in (success_rate * (7 / 10) + (1 - time_penalty) * (3 / 10)) * 10)"

text \<open>The formula as the specification words it, for comparison with the code's.\<close>

definition spec_health_score :: "ProxyInfo \<Rightarrow> real" where
  "spec_health_score p =
     (if success_count p + failure_count p = 0 then score p
      else
        let successRate = real (success_count p) / real (success_count p + failure_count p)
        in ((7 / 10) * successRate + (3 / 10) * (1 - min 1 (avg_response_time p / 10))) * 10)"

text \<open>Class constants of \<^verbatim>\<open>FreeProxyManager\<close>.\<close>

definition REFRESH_INTERVAL :: real where
  "REFRESH_INTERVAL = 300"

definition MIN_SCORE :: real where
  "MIN_SCORE = 1 / 2"

definition PREFERRED_ANONYMITY :: "string list" where
  "PREFERRED_ANONYMITY = [''anonymous'', ''elite'']"

definition ALLOWED_PROTOCOLS :: "string list" where
  "ALLOWED_PROTOCOLS = [''socks5'']"

definition FAILURE_THRESHOLD :: nat where
  "FAILURE_THRESHOLD = 3"

subsection \<open>Exceptions, the environment and the state\<close>

text \<open>
  A Python exception is its class and its message (\<^verbatim>\<open>str(e)\<close>). \<open>OtherError\<close>
  stands for every class that no \<^verbatim>\<open>except\<close> clause of the three files names, the
  plain \<^verbatim>\<open>Exception\<close> among them.
\<close>

datatype exn_class = ValueError | KeyError | AttributeError | IndexError | OtherError

datatype exn = Exn exn_class string

text \<open>
  What a \<^verbatim>\<open>session.get\<close> on the health-check endpoint gives: a response with a
  status code, or an exception of the transport.
\<close>

datatype http_outcome = Status int | Raises exn

text \<open>
  One element of the proxy list document, as far as \<^verbatim>\<open>_refresh_proxy_list\<close>
  reads it. A field is \<open>None\<close> when its key is missing (the code's
  \<^verbatim>\<open>.get(key, default)\<close> then takes the default). The \<^verbatim>\<open>geolocation\<close> value is
  missing, an object with or without a country, or something that has no \<^verbatim>\<open>.get\<close>.
  An element that is not an object at all is \<open>NotADict\<close>.
\<close>

datatype geolocation = GeoMissing | GeoDict "string option" | GeoNotDict

record proxy_data =
  pd_score :: "real option"
  pd_protocol :: "string option"
  pd_ip :: "string option"
  pd_port :: "int option"
  pd_https :: "bool option"
  pd_anonymity :: "string option"
  pd_geolocation :: geolocation

datatype json_entry = NotADict | Dict proxy_data

text \<open>
  What the request for the proxy list gives: an exception, or a status code and a body;
  the body is \<open>None\<close> when \<^verbatim>\<open>response.json()\<close> raises or its value cannot be
  iterated.
\<close>

datatype fetch_outcome = FetchRaises exn | FetchStatus int "json_entry list option"

text \<open>
  What ends up under the key \<^verbatim>\<open>"proxy"\<close> of the keyword arguments of a request of
  \<^verbatim>\<open>TokenManager\<close> is a Python value: \<^verbatim>\<open>None\<close>, a string, or a tuple.
\<close>

datatype pyval = PyNone | PyStr string | PyTuple "pyval list"

fun py_truth :: "pyval \<Rightarrow> bool" where
  "py_truth PyNone = False"
| "py_truth (PyStr x) = (x \<noteq> [])"
| "py_truth (PyTuple xs) = (xs \<noteq> [])"

text \<open>
  A request of \<^verbatim>\<open>TokenManager\<close>: the endpoint, the credential it carries, the other
  strings of its payload, and the \<^verbatim>\<open>proxy\<close> option (\<open>None\<close> when the key is not
  set).
\<close>

record request =
  req_url :: string
  req_auth :: string
  req_payload :: "string list"
  req_proxy :: "pyval option"

text \<open>
  The body of a response, through the fields the code reads; a field is \<open>None\<close> when
  the key is missing. \<^verbatim>\<open>response.json()\<close> can also raise (\<open>BadJson\<close>), or give a
  value on which the code's first \<^verbatim>\<open>.get\<close> raises (\<open>IllShaped\<close>).
\<close>

record body =
  error_code :: "string option"
  error_message :: "string option"
  error_param :: "string option"
  j_email :: "string option"
  j_name :: "string option"
  j_username :: "string option"
  j_phone_verified :: "bool option"
  j_has_subscription :: bool
  j_plan_id :: "string option"
  j_plan_title :: "string option"
  j_end_ts :: "string option"
  j_invite_code :: "string option"
  j_redeemed_count :: "int option"
  j_total_count :: "int option"
  j_remaining :: "int option"
  j_resets_in :: "real option"
  j_access_token :: "string option"
  j_refresh_token :: "string option"
  j_available :: "bool option"

datatype parsed = BadJson | IllShaped | Body body

datatype response = Raised exn | Resp int parsed

text \<open>
  What one call of \<^verbatim>\<open>_generate_random_username\<close> draws: the two names of the
  \<^verbatim>\<open>Faker\<close> collaborator, the number of \<^verbatim>\<open>random.randint(1, 9999)\<close> and the index
  \<^verbatim>\<open>random.choice\<close> picks.
\<close>

record name_draw =
  draw_first :: string
  draw_last :: string
  draw_digits :: int
  draw_choice :: nat

text \<open>The claims of a decoded primary credential that the code reads.\<close>

record jwt_claims =
  jwt_exp :: "real option"
  jwt_email :: "string option"

text \<open>
  The environment answers every effect by its position in the run: the \<open>k\<close>-th reading
  of the clock (\<^verbatim>\<open>time.time()\<close> and \<^verbatim>\<open>datetime.now()\<close> alike, in seconds), the
  \<open>k\<close>-th health probe (through a given proxy), the \<open>k\<close>-th request for the proxy
  list, the \<open>k\<close>-th request of \<^verbatim>\<open>TokenManager\<close>, the \<open>k\<close>-th draw of the username
  generator. Decoding a credential (\<^verbatim>\<open>jwt.decode\<close>, \<open>None\<close> when it raises) and
  parsing a date (\<^verbatim>\<open>dateutil\<close>) depend on the string only.
\<close>

record env =
  time_at :: "nat \<Rightarrow> real"
  probe_at :: "nat \<Rightarrow> string \<Rightarrow> http_outcome"
  fetch_at :: "nat \<Rightarrow> fetch_outcome"
  api_at :: "nat \<Rightarrow> request \<Rightarrow> response"
  username_at :: "nat \<Rightarrow> name_draw"
  jwt_decode :: "string \<Rightarrow> jwt_claims option"
  parse_date :: "string \<Rightarrow> exn + real"

text \<open>
  Modelled from the spec: the credential row of the storage collaborator
  (\<^verbatim>\<open>core/models.py\<close> and \<^verbatim>\<open>core/database.py\<close> are not among the sources): a primary
  bearer credential, the two optional exchange credentials, an optional bound proxy,
  the expiry timestamp, the enabled flag, the expired flag, the error counters, the
  quota state and the cached account data. The operator's pass-through fields
  (password, remark, the image and video switches) are left out: nothing in the three
  files reads them.
\<close>

record Token =
  token_id :: int
  token :: string
  email :: string
  name :: string
  st :: "string option"
  rt :: "string option"
  client_id :: "string option"
  proxy_url :: "string option"
  expiry_time :: "real option"
  is_active :: bool
  is_expired :: bool
  plan_type :: "string option"
  plan_title :: "string option"
  subscription_end :: "real option"
  sora2_supported :: "bool option"
  sora2_invite_code :: "string option"
  sora2_redeemed_count :: int
  sora2_total_count :: int
  sora2_remaining_count :: int
  sora2_cooldown_until :: "real option"
  is_phone_verified :: "bool option"
  error_count :: nat
  consecutive_error_count :: nat

text \<open>
  The state: the fields of the \<^verbatim>\<open>FreeProxyManager\<close> instance (\<^verbatim>\<open>_proxies\<close> is a
  dict, kept as an association list in insertion order), the two fields of the
  \<^verbatim>\<open>ProxyManager\<close> instance, the storage collaborator's credential table and global
  proxy configuration, and the counters and logs of the effects performed so far.
\<close>

record sys =
  proxies :: "(string \<times> ProxyInfo) list"
  last_refresh :: "real option"
  initialized :: bool
  free_proxy_manager_set :: bool
  free_proxy_enabled :: bool
  db_tokens :: "Token list"
  db_proxy_enabled :: bool
  db_proxy_url :: "string option"
  clock_reads :: nat
  probe_log :: "(string \<times> http_outcome) list"
  fetches :: nat
  api_log :: "request list"
  usernames_drawn :: nat

definition time_time :: "env \<Rightarrow> sys \<Rightarrow> real \<times> sys" where
  "time_time e s = (time_at e (clock_reads s), s\<lparr>clock_reads := Suc (clock_reads s)\<rparr>)"

text \<open>\<^verbatim>\<open>session.get(HEALTH_CHECK_URL, proxy=proxy_url, ...)\<close>, logged.\<close>

definition session_get_health :: "env \<Rightarrow> string \<Rightarrow> sys \<Rightarrow> http_outcome \<times> sys" where
  "session_get_health e u s =
     (let out = probe_at e (length (probe_log s)) u
      in (out, s\<lparr>probe_log := probe_log s @ [(u, out)]\<rparr>))"

subsection \<open>Health reports\<close>

definition report_success :: "env \<Rightarrow> string \<Rightarrow> real \<Rightarrow> sys \<Rightarrow> sys" where
  "report_success e u response_time s =
     (case map_of (proxies s) u of
        None \<Rightarrow> s
      | Some proxy \<Rightarrow>
          let (t1, s1) = time_time e s;
              (t2, s2) = time_time e s1;
              proxy' = proxy\<lparr>
                success_count := success_count proxy + 1,
                last_used := Some t1,
                last_success := Some t2,
                is_healthy := True,
                avg_response_time :=
                  (if avg_response_time proxy = 0 then response_time
                   else avg_response_time proxy * (7 / 10) + response_time * (3 / 10))\<rparr>
          in s2\<lparr>proxies := AList.update u proxy' (proxies s2)\<rparr>)"

text \<open>
  The condition under which \<^verbatim>\<open>report_failure\<close> clears \<^verbatim>\<open>is_healthy\<close>, on the
  counters after the increment.
\<close>

definition too_many_failures :: "nat \<Rightarrow> nat \<Rightarrow> bool" where
  "too_many_failures succ fails \<longleftrightarrow>
     fails \<ge> FAILURE_THRESHOLD \<and>
     (succ = 0 \<or> real fails / real (succ + fails) > 1 / 2)"

definition report_failure :: "env \<Rightarrow> string \<Rightarrow> sys \<Rightarrow> sys" where
  "report_failure e u s =
     (case map_of (proxies s) u of
        None \<Rightarrow> s
      | Some proxy \<Rightarrow>
          let (t1, s1) = time_time e s;
              (t2, s2) = time_time e s1;
              proxy1 = proxy\<lparr>
                failure_count := failure_count proxy + 1,
                last_used := Some t1,
                last_failure := Some t2\<rparr>;
              proxy2 =
                (if too_many_failures (success_count proxy1) (failure_count proxy1)
                 then proxy1\<lparr>is_healthy := False\<rparr> else proxy1)
          in s2\<lparr>proxies := AList.update u proxy2 (proxies s2)\<rparr>)"

subsection \<open>The health probe\<close>

text \<open>The body of the \<^verbatim>\<open>try\<close> block of \<^verbatim>\<open>health_check_proxy\<close>.\<close>

definition health_check_try :: "env \<Rightarrow> string \<Rightarrow> sys \<Rightarrow> (exn + bool) \<times> sys" where
  "health_check_try e u s =
     (let (start_time, s1) = time_time e s;
          (out, s2) = session_get_health e u s1
      in case out of
           Raises x \<Rightarrow> (Inl x, s2)
         | Status code \<Rightarrow>
             let (t, s3) = time_time e s2;
                 response_time = t - start_time
             in if code = 200 then (Inr True, report_success e u response_time s3)
                else (Inr False, report_failure e u s3))"

definition health_check_proxy :: "env \<Rightarrow> string \<Rightarrow> sys \<Rightarrow> (exn + bool) \<times> sys" where
  "health_check_proxy e u s =
     (case health_check_try e u s of
        (Inr b, s') \<Rightarrow> (Inr b, s')
      | (Inl x, s') \<Rightarrow> (Inr False, report_failure e u s'))"

subsection \<open>Refreshing the pool\<close>

text \<open>Python's \<^verbatim>\<open>str\<close> of an integer, for the port inside the f-string.\<close>

definition digit_char :: "nat \<Rightarrow> char" where
  "digit_char d = ''0123456789'' ! d"

fun str_nat :: "nat \<Rightarrow> string" where
  "str_nat n = (if n < 10 then [digit_char n] else str_nat (n div 10) @ [digit_char (n mod 10)])"

definition str_int :: "int \<Rightarrow> string" where
  "str_int i = (if i < 0 then CHR ''-'' # str_nat (nat (- i)) else str_nat (nat i))"

definition get_default :: "'a option \<Rightarrow> 'a \<Rightarrow> 'a" where
  "get_default v d = (case v of None \<Rightarrow> d | Some x \<Rightarrow> x)"

text \<open>The record built for a key that is new to the pool.\<close>

definition new_proxy_info :: "string \<Rightarrow> string \<Rightarrow> string \<Rightarrow> int \<Rightarrow> real \<Rightarrow> proxy_data \<Rightarrow> string \<Rightarrow> ProxyInfo" where
  "new_proxy_info purl proto addr prt sc d ctry =
     \<lparr>url = purl, protocol = proto, ip = addr, port = prt,
      https = get_default (pd_https d) False,
      anonymity = get_default (pd_anonymity d) ''unknown'',
      score = sc, country = ctry,
      success_count = 0, failure_count = 0,
      last_used = None, last_success = None, last_failure = None,
      avg_response_time = 0, is_healthy = True\<rparr>"

text \<open>
  The \<^verbatim>\<open>for proxy_data in proxies_data\<close> loop. It carries the pool it reads
  (\<open>old\<close>) and the dict it builds (\<open>new\<close>): a known record is the same object in both,
  so the assignment to its \<^verbatim>\<open>score\<close> is written to both. The second component of
  the result is \<open>None\<close> when an element made the loop raise.
\<close>

fun refresh_loop ::
  "json_entry list \<Rightarrow> (string \<times> ProxyInfo) list \<Rightarrow> (string \<times> ProxyInfo) list
     \<Rightarrow> (string \<times> ProxyInfo) list \<times> (string \<times> ProxyInfo) list option" where
  "refresh_loop [] old new = (old, Some new)"
| "refresh_loop (NotADict # ds) old new = (old, None)"
| "refresh_loop (Dict d # ds) old new =
     (let sc = get_default (pd_score d) 0 in
      if sc < MIN_SCORE then refresh_loop ds old new
      else
        let proto = get_default (pd_protocol d) ''http'';
            addr = get_default (pd_ip d) [];
            prt = get_default (pd_port d) 0
        in if addr = [] \<or> prt = 0 then refresh_loop ds old new
           else if proto \<notin> set ALLOWED_PROTOCOLS then refresh_loop ds old new
           else
             let purl = proto @ ''://'' @ addr @ '':'' @ str_int prt
             in case map_of old purl of
                  Some existing \<Rightarrow>
                    let existing' = existing\<lparr>score := sc\<rparr>
                    in refresh_loop ds (AList.update purl existing' old)
                         (AList.update purl existing' new)
                | None \<Rightarrow>
                    (case pd_geolocation d of
                       GeoNotDict \<Rightarrow> (old, None)
                     | GeoMissing \<Rightarrow>
                         refresh_loop ds old
                           (AList.update purl
                              (new_proxy_info purl proto addr prt sc d ''Unknown'') new)
                     | GeoDict c \<Rightarrow>
                         refresh_loop ds old
                           (AList.update purl
                              (new_proxy_info purl proto addr prt sc d
                                 (get_default c ''Unknown'')) new)))"

definition refresh_proxy_list :: "env \<Rightarrow> sys \<Rightarrow> sys" where
  "refresh_proxy_list e s =
     (let out = fetch_at e (fetches s);
          s1 = s\<lparr>fetches := Suc (fetches s)\<rparr>
      in case out of
           FetchRaises x \<Rightarrow> s1
         | FetchStatus code body \<Rightarrow>
             if code \<noteq> 200 then s1
             else
               (case body of
                  None \<Rightarrow> s1
                | Some proxies_data \<Rightarrow>
                    (case refresh_loop proxies_data (proxies s1) [] of
                       (old, None) \<Rightarrow> s1\<lparr>proxies := old\<rparr>
                     | (old, Some new_proxies) \<Rightarrow>
                         let (t, s2) = time_time e (s1\<lparr>proxies := new_proxies\<rparr>)
                         in s2\<lparr>last_refresh := Some t\<rparr>)))"

definition ensure_fresh_proxies :: "env \<Rightarrow> sys \<Rightarrow> sys" where
  "ensure_fresh_proxies e s =
     (case last_refresh s of
        None \<Rightarrow> refresh_proxy_list e s
      | Some lr \<Rightarrow>
          let (t, s1) = time_time e s
          in if t - lr > REFRESH_INTERVAL then refresh_proxy_list e s1 else s1)"

definition initialize :: "env \<Rightarrow> sys \<Rightarrow> sys" where
  "initialize e s =
     (if initialized s then s
      else (refresh_proxy_list e s)\<lparr>initialized := True\<rparr>)"

subsection \<open>Selection\<close>

text \<open>
  The sort key of \<^verbatim>\<open>_get_healthy_proxies\<close> and Python's order on such pairs
  (\<^verbatim>\<open>False < True\<close>, then the score).
\<close>

definition sort_key_of :: "ProxyInfo \<Rightarrow> bool \<times> real" where
  "sort_key_of p = (anonymity p \<in> set PREFERRED_ANONYMITY, health_score p)"

definition key_less :: "bool \<times> real \<Rightarrow> bool \<times> real \<Rightarrow> bool" where
  "key_less a b \<longleftrightarrow> (\<not> fst a \<and> fst b) \<or> (fst a = fst b \<and> snd a < snd b)"

text \<open>
  \<^verbatim>\<open>list.sort(key=..., reverse=True)\<close>: descending, and records with equal keys
  keep their order.
\<close>

fun insert_desc :: "ProxyInfo \<Rightarrow> ProxyInfo list \<Rightarrow> ProxyInfo list" where
  "insert_desc x [] = [x]"
| "insert_desc x (y # ys) =
     (if key_less (sort_key_of x) (sort_key_of y) then y # insert_desc x ys else x # y # ys)"

definition sort_desc :: "ProxyInfo list \<Rightarrow> ProxyInfo list" where
  "sort_desc xs = foldr insert_desc xs []"

definition get_healthy_proxies :: "sys \<Rightarrow> ProxyInfo list" where
  "get_healthy_proxies s = sort_desc (filter is_healthy (map snd (proxies s)))"

text \<open>The first element of a list that passes a test: a \<^verbatim>\<open>for\<close> loop that returns.\<close>

fun first_not_excluded :: "string list \<Rightarrow> ProxyInfo list \<Rightarrow> string option" where
  "first_not_excluded ex [] = None"
| "first_not_excluded ex (p # ps) =
     (if url p \<notin> set ex then Some (url p) else first_not_excluded ex ps)"

definition get_best_proxy :: "env \<Rightarrow> string list option \<Rightarrow> sys \<Rightarrow> string option \<times> sys" where
  "get_best_proxy e exclude_urls s =
     (let s1 = ensure_fresh_proxies e s;
          exclude_set = get_default exclude_urls [];
          healthy = get_healthy_proxies s1
      in case first_not_excluded exclude_set healthy of
           Some u \<Rightarrow> (Some u, s1)
         | None \<Rightarrow> (first_not_excluded exclude_set (map snd (proxies s1)), s1))"

subsection \<open>The credential table\<close>

text \<open>Python's truth value of an \<^verbatim>\<open>Optional[str]\<close>.\<close>

definition truthy :: "string option \<Rightarrow> bool" where
  "truthy v = (case v of None \<Rightarrow> False | Some x \<Rightarrow> x \<noteq> [])"

text \<open>
  Modelled from the spec: \<^verbatim>\<open>getAllTokens()\<close> and \<^verbatim>\<open>getToken(id)\<close> of the storage
  collaborator read the table; \<^verbatim>\<open>database.py\<close> is not among the sources.
\<close>

definition db_get_all_tokens :: "sys \<Rightarrow> Token list" where
  "db_get_all_tokens s = db_tokens s"

definition db_get_token :: "int \<Rightarrow> sys \<Rightarrow> Token option" where
  "db_get_token tid s = find (\<lambda>t. token_id t = tid) (db_tokens s)"

definition db_map_token :: "int \<Rightarrow> (Token \<Rightarrow> Token) \<Rightarrow> sys \<Rightarrow> sys" where
  "db_map_token tid f s =
     s\<lparr>db_tokens := map (\<lambda>t. if token_id t = tid then f t else t) (db_tokens s)\<rparr>"

text \<open>
  Modelled from the spec: \<^verbatim>\<open>updateToken(id, fields...)\<close> of the storage collaborator
  writes the fields it is given and leaves a field whose argument is \<^verbatim>\<open>None\<close> as it
  is. The keyword arguments the three files pass are the fields of \<open>token_update\<close>.
\<close>

record token_update =
  set_token :: "string option"
  set_st :: "string option"
  set_rt :: "string option"
  set_client_id :: "string option"
  set_proxy_url :: "string option"
  set_expiry_time :: "real option"
  set_plan_type :: "string option"
  set_plan_title :: "string option"
  set_subscription_end :: "real option"

definition no_update :: token_update where
  "no_update =
     \<lparr>set_token = None, set_st = None, set_rt = None, set_client_id = None,
      set_proxy_url = None, set_expiry_time = None, set_plan_type = None,
      set_plan_title = None, set_subscription_end = None\<rparr>"

definition keep_or :: "'a option \<Rightarrow> 'a option \<Rightarrow> 'a option" where
  "keep_or arg old = (case arg of None \<Rightarrow> old | Some v \<Rightarrow> Some v)"

definition apply_update :: "token_update \<Rightarrow> Token \<Rightarrow> Token" where
  "apply_update upd t =
     t\<lparr>token := get_default (set_token upd) (token t),
       st := keep_or (set_st upd) (st t),
       rt := keep_or (set_rt upd) (rt t),
       client_id := keep_or (set_client_id upd) (client_id t),
       proxy_url := keep_or (set_proxy_url upd) (proxy_url t),
       expiry_time := keep_or (set_expiry_time upd) (expiry_time t),
       plan_type := keep_or (set_plan_type upd) (plan_type t),
       plan_title := keep_or (set_plan_title upd) (plan_title t),
       subscription_end := keep_or (set_subscription_end upd) (subscription_end t)\<rparr>"

definition db_update_token :: "int \<Rightarrow> token_update \<Rightarrow> sys \<Rightarrow> sys" where
  "db_update_token tid upd s = db_map_token tid (apply_update upd) s"

subsection \<open>Binding a verified proxy to a credential\<close>

text \<open>
  The proxies bound to other credentials. The code collects them in a set; only
  membership in it is ever used.
\<close>

definition used_proxies :: "int \<Rightarrow> Token list \<Rightarrow> string list" where
  "used_proxies tid all_tokens =
     remdups (map (\<lambda>t. get_default (proxy_url t) [])
       (filter (\<lambda>t. truthy (proxy_url t) \<and> token_id t \<noteq> tid) all_tokens))"

text \<open>The \<^verbatim>\<open>while attempts < max_attempts\<close> loop of \<^verbatim>\<open>bind_proxy_to_token\<close>.\<close>

function bind_loop ::
  "env \<Rightarrow> int \<Rightarrow> int \<Rightarrow> int \<Rightarrow> string list \<Rightarrow> sys \<Rightarrow> (exn + string option) \<times> sys" where
  "bind_loop e tid max_attempts attempts tried s =
     (if attempts < max_attempts then
        (case get_best_proxy e (if tried = [] then None else Some tried) s of
           (None, s1) \<Rightarrow> (Inr None, s1)
         | (Some u, s1) \<Rightarrow>
             if u = [] then (Inr None, s1)
             else
               (case health_check_proxy e u s1 of
                  (Inl x, s2) \<Rightarrow> (Inl x, s2)
                | (Inr is_working, s2) \<Rightarrow>
                    if is_working
                    then (Inr (Some u), db_update_token tid (no_update\<lparr>set_proxy_url := Some u\<rparr>) s2)
                    else bind_loop e tid max_attempts (attempts + 1) (List.insert u tried) s2))
      else (Inr None, s))"
  by pat_completeness auto
termination
  by (relation "measure (\<lambda>(e, tid, max_attempts, attempts, tried, s). nat (max_attempts - attempts))")
    auto

declare bind_loop.simps [simp del]

definition bind_proxy_to_token ::
  "env \<Rightarrow> int \<Rightarrow> string list option \<Rightarrow> int \<Rightarrow> sys \<Rightarrow> (exn + string option) \<times> sys" where
  "bind_proxy_to_token e tid exclude_urls max_attempts s =
     (let all_tokens = db_get_all_tokens s;
          all_excluded = used_proxies tid all_tokens @ get_default exclude_urls [];
          tried_proxies = remdups all_excluded
      in bind_loop e tid max_attempts 0 tried_proxies s)"

definition rebind_proxy_on_failure ::
  "env \<Rightarrow> int \<Rightarrow> string \<Rightarrow> sys \<Rightarrow> (exn + string option) \<times> sys" where
  "rebind_proxy_on_failure e tid failed s =
     bind_proxy_to_token e tid (Some [failed]) 10 (report_failure e failed s)"

subsection \<open>Racing for the fastest proxy\<close>

text \<open>Python's slice \<^verbatim>\<open>xs[:n]\<close>; a negative \<open>n\<close> counts from the end.\<close>

definition py_take :: "int \<Rightarrow> 'a list \<Rightarrow> 'a list" where
  "py_take n xs = (if n \<ge> 0 then take (nat n) xs else take (length xs - nat (- n)) xs)"

text \<open>The inner coroutine \<^verbatim>\<open>test_proxy\<close>, without the semaphore.\<close>

definition test_proxy :: "env \<Rightarrow> string \<Rightarrow> sys \<Rightarrow> (string \<times> real) option \<times> sys" where
  "test_proxy e u s =
     (let (start_time, s1) = time_time e s;
          (out, s2) = session_get_health e u s1
      in case out of
           Raises x \<Rightarrow> (None, report_failure e u s2)
         | Status code \<Rightarrow>
             let (t, s3) = time_time e s2;
                 response_time = t - start_time
             in if code = 200 then (Some (u, response_time), report_success e u response_time s3)
                else (None, report_failure e u s3))"

text \<open>
  \<^verbatim>\<open>asyncio.gather\<close> returns the results in the order of the tasks. The tasks are
  run here one after the other in that order: what one task returns depends on its own
  probe and its own two readings of the clock only.
\<close>

fun gather_tests :: "env \<Rightarrow> string list \<Rightarrow> sys \<Rightarrow> (string \<times> real) option list \<times> sys" where
  "gather_tests e [] s = ([], s)"
| "gather_tests e (u # us) s =
     (let (r, s1) = test_proxy e u s;
          (rs, s2) = gather_tests e us s1
      in (r # rs, s2))"

text \<open>The list \<^verbatim>\<open>proxies_to_test\<close> of \<^verbatim>\<open>find_fastest_working_proxy\<close>.\<close>

definition proxies_to_test :: "string list option \<Rightarrow> int \<Rightarrow> sys \<Rightarrow> string list" where
  "proxies_to_test exclude_urls max_test s =
     (let exclude_set = get_default exclude_urls []
      in py_take max_test
           (filter (\<lambda>u. u \<notin> set exclude_set) (map url (get_healthy_proxies s))))"

text \<open>
  \<^verbatim>\<open>find_fastest_working_proxy\<close>. The outer \<open>option\<close> is \<open>None\<close> when the call
  does not return: \<^verbatim>\<open>asyncio.Semaphore(0)\<close> admits no task, so \<^verbatim>\<open>gather\<close> waits
  for ever. A negative \<^verbatim>\<open>max_concurrent\<close> makes the constructor raise.
\<close>

definition find_fastest_working_proxy ::
  "env \<Rightarrow> string list option \<Rightarrow> int \<Rightarrow> int \<Rightarrow> sys
     \<Rightarrow> ((exn + (string \<times> real) option) \<times> sys) option" where
  "find_fastest_working_proxy e exclude_urls max_test max_concurrent s =
     (let s1 = ensure_fresh_proxies e s;
          to_test = proxies_to_test exclude_urls max_test s1
      in if to_test = [] then Some (Inr None, s1)
         else if max_concurrent < 0
         then Some (Inl (Exn ValueError ''Semaphore initial value must be >= 0''), s1)
         else if max_concurrent = 0 then None
         else
           let (completed, s2) = gather_tests e to_test s1;
               results = List.map_filter id completed
           in if results = [] then Some (Inr None, s2)
              else Some (Inr (Some (hd (sort_key snd results))), s2))"

section \<open>The proxy router (\<^verbatim>\<open>proxy_manager.py\<close>)\<close>

text \<open>
  Modelled from the spec: \<^verbatim>\<open>getProxyConfig()\<close> of the storage collaborator gives
  the global fallback proxy and whether it is enabled.
\<close>

definition db_get_proxy_config :: "sys \<Rightarrow> bool \<times> string option" where
  "db_get_proxy_config s = (db_proxy_enabled s, db_proxy_url s)"

text \<open>The last two steps of \<^verbatim>\<open>get_proxy_url\<close>: the global proxy, or nothing.\<close>

definition global_fallback :: "sys \<Rightarrow> string option \<times> string option" where
  "global_fallback s =
     (let (enabled, purl) = db_get_proxy_config s
      in if enabled \<and> truthy purl then (purl, Some ''global'') else (None, None))"

text \<open>
  \<^verbatim>\<open>ProxyManager.get_proxy_url\<close>. The result is the pair
  \<^verbatim>\<open>(proxy_url, bind_action)\<close> of its docstring.
\<close>

definition get_proxy_url ::
  "env \<Rightarrow> int option \<Rightarrow> string option \<Rightarrow> sys
     \<Rightarrow> (exn + string option \<times> string option) \<times> sys" where
  "get_proxy_url e tid_arg purl_arg s =
     (if truthy purl_arg then (Inr (purl_arg, None), s)
      else
        (case tid_arg of
           None \<Rightarrow> (Inr (global_fallback s), s)
         | Some tid \<Rightarrow>
             (case db_get_token tid s of
                None \<Rightarrow> (Inr (global_fallback s), s)
              | Some tok \<Rightarrow>
                  if truthy (proxy_url tok) then (Inr (proxy_url tok, None), s)
                  else if free_proxy_enabled s \<and> free_proxy_manager_set s then
                    (let s1 = initialize e s
                     in case bind_proxy_to_token e tid None 10 s1 of
                          (Inl x, s2) \<Rightarrow> (Inl x, s2)
                        | (Inr new_proxy, s2) \<Rightarrow>
                            if truthy new_proxy then (Inr (new_proxy, Some ''bound''), s2)
                            else (Inr (global_fallback s2), s2))
                  else (Inr (global_fallback s), s))))"

section \<open>The credential manager (\<^verbatim>\<open>token_manager.py\<close>)\<close>

subsection \<open>Strings\<close>

text \<open>Python's \<^verbatim>\<open>needle in hay\<close> on strings.\<close>

fun contains :: "string \<Rightarrow> string \<Rightarrow> bool" where
  "contains [] needle = (needle = [])"
| "contains (h # hs) needle = (take (length needle) (h # hs) = needle \<or> contains hs needle)"

text \<open>
  The two texts \<^verbatim>\<open>add_token\<close> looks for in a message, in UTF-8: the Chinese for
  ``the token has expired'' after \<^verbatim>\<open>Token\<close>, and for ``is not available in your
  country or region'' after \<^verbatim>\<open>Sora\<close>.
\<close>

definition TOKEN_EXPIRED_TEXT :: string where
  "TOKEN_EXPIRED_TEXT =
     ''Token'' @ [CHR 0xE5, CHR 0xB7, CHR 0xB2, CHR 0xE8, CHR 0xBF, CHR 0x87,
                  CHR 0xE6, CHR 0x9C, CHR 0x9F]"

definition REGION_TEXT :: string where
  "REGION_TEXT =
     ''Sora'' @ [CHR 0xE5, CHR 0x9C, CHR 0xA8, CHR 0xE6, CHR 0x82, CHR 0xA8,
                 CHR 0xE7, CHR 0x9A, CHR 0x84, CHR 0xE5, CHR 0x9B, CHR 0xBD,
                 CHR 0xE5, CHR 0xAE, CHR 0xB6, CHR ''/'', CHR 0xE5, CHR 0x9C, CHR 0xB0,
                 CHR 0xE5, CHR 0x8C, CHR 0xBA, CHR 0xE4, CHR 0xB8, CHR 0x8D,
                 CHR 0xE5, CHR 0x8F, CHR 0xAF, CHR 0xE7, CHR 0x94, CHR 0xA8]"

text \<open>The default of the country in the region message (``unknown'').\<close>

definition UNKNOWN_TEXT :: string where
  "UNKNOWN_TEXT = [CHR 0xE6, CHR 0x9C, CHR 0xAA, CHR 0xE7, CHR 0x9F, CHR 0xA5]"

definition str_of_exn :: "exn \<Rightarrow> string" where
  "str_of_exn x = (case x of Exn c m \<Rightarrow> m)"

definition class_of_exn :: "exn \<Rightarrow> exn_class" where
  "class_of_exn x = (case x of Exn c m \<Rightarrow> c)"

text \<open>\<^verbatim>\<open>str.lower()\<close> on the ASCII letters.\<close>

definition lower_char :: "char \<Rightarrow> char" where
  "lower_char c =
     (let n = (of_char c :: nat)
      in if 65 \<le> n \<and> n \<le> 90 then char_of (n + 32) else c)"

definition py_lower :: "string \<Rightarrow> string" where
  "py_lower m = map lower_char m"

subsection \<open>Sending a request\<close>

definition opt_val :: "string option \<Rightarrow> pyval" where
  "opt_val v = (case v of None \<Rightarrow> PyNone | Some x \<Rightarrow> PyStr x)"

definition tuple_val :: "string option \<times> string option \<Rightarrow> pyval" where
  "tuple_val p = PyTuple [opt_val (fst p), opt_val (snd p)]"

text \<open>\<^verbatim>\<open>if proxy_url: kwargs["proxy"] = proxy_url\<close>.\<close>

definition proxy_kwarg :: "pyval \<Rightarrow> pyval option" where
  "proxy_kwarg v = (if py_truth v then Some v else None)"

definition session_request :: "env \<Rightarrow> request \<Rightarrow> sys \<Rightarrow> response \<times> sys" where
  "session_request e req s =
     (api_at e (length (api_log s)) req, s\<lparr>api_log := api_log s @ [req]\<rparr>)"

text \<open>
  Every request function of \<^verbatim>\<open>TokenManager\<close> starts the same way: it assigns the
  result of \<^verbatim>\<open>get_proxy_url\<close> to its variable \<^verbatim>\<open>proxy_url\<close>, builds the keyword
  arguments, sets \<^verbatim>\<open>proxy\<close> when that variable is true, and sends. The variable holds
  what \<^verbatim>\<open>get_proxy_url\<close> returned: the pair.
\<close>

definition resolve_proxy_kwarg ::
  "env \<Rightarrow> int option \<Rightarrow> string option \<Rightarrow> sys \<Rightarrow> (exn + pyval option) \<times> sys" where
  "resolve_proxy_kwarg e tid_arg purl_arg s =
     (case get_proxy_url e tid_arg purl_arg s of
        (Inl x, s1) \<Rightarrow> (Inl x, s1)
      | (Inr resolved, s1) \<Rightarrow> (Inr (proxy_kwarg (tuple_val resolved)), s1))"

definition send ::
  "env \<Rightarrow> int option \<Rightarrow> string option \<Rightarrow> string \<Rightarrow> string \<Rightarrow> string list \<Rightarrow> sys
     \<Rightarrow> (exn + response) \<times> sys" where
  "send e tid_arg purl_arg endpoint auth payload s =
     (case resolve_proxy_kwarg e tid_arg purl_arg s of
        (Inl x, s1) \<Rightarrow> (Inl x, s1)
      | (Inr kw, s1) \<Rightarrow>
          let (resp, s2) =
                session_request e
                  \<lparr>req_url = endpoint, req_auth = auth, req_payload = payload, req_proxy = kw\<rparr> s1
          in (Inr resp, s2))"

subsection \<open>Remote calls\<close>

definition ME_URL :: string where
  "ME_URL = ''{sora_base_url}/me''"

definition SUBSCRIPTIONS_URL :: string where
  "SUBSCRIPTIONS_URL = ''https://sora.chatgpt.com/backend/billing/subscriptions''"

definition INVITE_URL :: string where
  "INVITE_URL = ''https://sora.chatgpt.com/backend/project_y/invite/mine''"

definition BOOTSTRAP_URL :: string where
  "BOOTSTRAP_URL = ''https://sora.chatgpt.com/backend/m/bootstrap''"

definition NF_CHECK_URL :: string where
  "NF_CHECK_URL = ''https://sora.chatgpt.com/backend/nf/check''"

definition USERNAME_CHECK_URL :: string where
  "USERNAME_CHECK_URL = ''https://sora.chatgpt.com/backend/project_y/profile/username/check''"

definition USERNAME_SET_URL :: string where
  "USERNAME_SET_URL = ''https://sora.chatgpt.com/backend/project_y/profile/username/set''"

definition SESSION_URL :: string where
  "SESSION_URL = ''https://sora.chatgpt.com/api/auth/session''"

definition OAUTH_URL :: string where
  "OAUTH_URL = ''https://auth.openai.com/oauth/token''"

definition DEFAULT_CLIENT_ID :: string where
  "DEFAULT_CLIENT_ID = ''app_LlGpXReQgckcGGUo2JrYvtJK''"

text \<open>What \<^verbatim>\<open>response.json()\<close> raises, and what \<^verbatim>\<open>.get\<close> on a value without it raises.\<close>

definition json_error :: exn where
  "json_error = Exn ValueError ''Expecting value: line 1 column 1 (char 0)''"

definition attr_error :: exn where
  "attr_error = Exn AttributeError ''object has no attribute get''"

text \<open>
  The exception, if any, of the inner \<^verbatim>\<open>try\<close> of \<^verbatim>\<open>get_user_info\<close> on a 401
  response. Its handler is \<^verbatim>\<open>except (ValueError, KeyError): pass\<close>.
\<close>

definition me_401_probe :: "parsed \<Rightarrow> exn option" where
  "me_401_probe p =
     (case p of
        BadJson \<Rightarrow> Some json_error
      | IllShaped \<Rightarrow> Some attr_error
      | Body b \<Rightarrow>
          if get_default (error_code b) [] = ''token_invalidated''
          then Some (Exn ValueError ''401 token_invalidated: Token has been invalidated'')
          else None)"

text \<open>
  \<^verbatim>\<open>get_user_info\<close> returns the parsed body. A body that is not an object makes the
  caller's first \<^verbatim>\<open>.get\<close> raise, inside the same \<^verbatim>\<open>try\<close> as the call in every
  caller; the exception is raised here.
\<close>

definition get_user_info ::
  "env \<Rightarrow> string \<Rightarrow> int option \<Rightarrow> string option \<Rightarrow> sys \<Rightarrow> (exn + body) \<times> sys" where
  "get_user_info e access_token tid_arg purl_arg s =
     (case send e tid_arg purl_arg ME_URL access_token [] s of
        (Inl x, s1) \<Rightarrow> (Inl x, s1)
      | (Inr (Raised x), s1) \<Rightarrow> (Inl x, s1)
      | (Inr (Resp code p), s1) \<Rightarrow>
          let failed = Exn ValueError (''Failed to get user info: '' @ str_int code)
          in if code \<noteq> 200 then
               (if code = 401 then
                  (case me_401_probe p of
                     None \<Rightarrow> (Inl failed, s1)
                   | Some x \<Rightarrow>
                       if class_of_exn x = ValueError \<or> class_of_exn x = KeyError
                       then (Inl failed, s1)
                       else (Inl x, s1))
                else (Inl failed, s1))
             else
               (case p of
                  BadJson \<Rightarrow> (Inl json_error, s1)
                | IllShaped \<Rightarrow> (Inl attr_error, s1)
                | Body b \<Rightarrow> (Inr b, s1)))"

record sub_info =
  sub_plan_type :: string
  sub_plan_title :: string
  sub_end :: string

definition get_subscription_info ::
  "env \<Rightarrow> string \<Rightarrow> int option \<Rightarrow> string option \<Rightarrow> sys \<Rightarrow> (exn + sub_info) \<times> sys" where
  "get_subscription_info e tok tid_arg purl_arg s =
     (case send e tid_arg purl_arg SUBSCRIPTIONS_URL tok [] s of
        (Inl x, s1) \<Rightarrow> (Inl x, s1)
      | (Inr (Raised x), s1) \<Rightarrow> (Inl x, s1)
      | (Inr (Resp code p), s1) \<Rightarrow>
          let failed = Exn OtherError (''Failed to get subscription info: '' @ str_int code)
          in if code = 200 then
               (case p of
                  BadJson \<Rightarrow> (Inl json_error, s1)
                | IllShaped \<Rightarrow> (Inl attr_error, s1)
                | Body b \<Rightarrow>
                    if j_has_subscription b
                    then (Inr \<lparr>sub_plan_type = get_default (j_plan_id b) [],
                               sub_plan_title = get_default (j_plan_title b) [],
                               sub_end = get_default (j_end_ts b) []\<rparr>, s1)
                    else (Inr \<lparr>sub_plan_type = [], sub_plan_title = [], sub_end = []\<rparr>, s1))
             else
               (case p of
                  BadJson \<Rightarrow> (Inl failed, s1)
                | IllShaped \<Rightarrow> (Inl attr_error, s1)
                | Body b \<Rightarrow>
                    if error_code b = Some ''token_expired''
                    then (Inl (Exn OtherError
                            (TOKEN_EXPIRED_TEXT @ '': '' @
                             get_default (error_message b) ''Token expired'')), s1)
                    else (Inl failed, s1)))"

text \<open>
  The dict \<^verbatim>\<open>get_sora2_invite_code\<close> returns. The two counts are \<open>None\<close> when the
  dict has no such key (the callers then take 0).
\<close>

record invite_info =
  inv_supported :: bool
  inv_code :: "string option"
  inv_redeemed :: "int option"
  inv_total :: "int option"

definition invite_of_body :: "body \<Rightarrow> invite_info" where
  "invite_of_body b =
     \<lparr>inv_supported = True, inv_code = j_invite_code b,
      inv_redeemed = Some (get_default (j_redeemed_count b) 0),
      inv_total = Some (get_default (j_total_count b) 0)\<rparr>"

definition not_supported :: invite_info where
  "not_supported = \<lparr>inv_supported = False, inv_code = None, inv_redeemed = None, inv_total = None\<rparr>"

text \<open>
  The activation attempt of \<^verbatim>\<open>get_sora2_invite_code\<close>, with the keyword arguments
  of the first request. Its \<^verbatim>\<open>except Exception\<close> catches everything.
\<close>

definition activate_and_retry ::
  "env \<Rightarrow> string \<Rightarrow> pyval option \<Rightarrow> sys \<Rightarrow> invite_info \<times> sys" where
  "activate_and_retry e access_token kw s =
     (let (activate_response, s1) =
            session_request e
              \<lparr>req_url = BOOTSTRAP_URL, req_auth = access_token, req_payload = [],
               req_proxy = kw\<rparr> s
      in case activate_response of
           Raised x \<Rightarrow> (not_supported, s1)
         | Resp code p \<Rightarrow>
             if code = 200 then
               (let (retry_response, s2) =
                      session_request e
                        \<lparr>req_url = INVITE_URL, req_auth = access_token, req_payload = [],
                         req_proxy = kw\<rparr> s1
                in case retry_response of
                     Raised x \<Rightarrow> (not_supported, s2)
                   | Resp retry_code retry_p \<Rightarrow>
                       if retry_code = 200 then
                         (case retry_p of
                            Body b \<Rightarrow> (invite_of_body b, s2)
                          | _ \<Rightarrow> (not_supported, s2))
                       else (not_supported, s2))
             else (not_supported, s1))"

definition get_sora2_invite_code ::
  "env \<Rightarrow> string \<Rightarrow> int option \<Rightarrow> string option \<Rightarrow> sys \<Rightarrow> (exn + invite_info) \<times> sys" where
  "get_sora2_invite_code e access_token tid_arg purl_arg s =
     (case resolve_proxy_kwarg e tid_arg purl_arg s of
        (Inl x, s0) \<Rightarrow> (Inl x, s0)
      | (Inr kw, s0) \<Rightarrow>
          (case session_request e
                  \<lparr>req_url = INVITE_URL, req_auth = access_token, req_payload = [],
                   req_proxy = kw\<rparr> s0 of
             (Raised x, s1) \<Rightarrow> (Inl x, s1)
           | (Resp code p, s1) \<Rightarrow>
               if code = 200 then
                 (case p of
                    BadJson \<Rightarrow> (Inl json_error, s1)
                  | IllShaped \<Rightarrow> (Inl attr_error, s1)
                  | Body b \<Rightarrow> (Inr (invite_of_body b), s1))
               else
                 (case p of
                    BadJson \<Rightarrow> (Inr not_supported, s1)
                  | IllShaped \<Rightarrow> (Inl attr_error, s1)
                  | Body b \<Rightarrow>
                      if error_code b = Some ''unsupported_country_code''
                      then (Inl (Exn OtherError
                              (REGION_TEXT @ '' ('' @ get_default (error_param b) UNKNOWN_TEXT
                               @ ''): '' @ get_default (error_message b) [])), s1)
                      else if code = 401 \<and>
                              contains (get_default (error_message b) []) ''Unauthorized''
                      then (case activate_and_retry e access_token kw s1 of
                              (info, s2) \<Rightarrow> (Inr info, s2))
                      else (Inr not_supported, s1))))"

text \<open>
  The dict \<^verbatim>\<open>get_sora2_remaining_count\<close> returns; the failure dict has no
  \<^verbatim>\<open>access_resets_in_seconds\<close>.
\<close>

record remaining_info =
  rem_success :: bool
  rem_count :: int
  rem_resets_in :: "real option"

definition get_sora2_remaining_count ::
  "env \<Rightarrow> string \<Rightarrow> int option \<Rightarrow> string option \<Rightarrow> sys \<Rightarrow> (exn + remaining_info) \<times> sys" where
  "get_sora2_remaining_count e access_token tid_arg purl_arg s =
     (case send e tid_arg purl_arg NF_CHECK_URL access_token [] s of
        (Inl x, s1) \<Rightarrow> (Inl x, s1)
      | (Inr (Raised x), s1) \<Rightarrow> (Inl x, s1)
      | (Inr (Resp code p), s1) \<Rightarrow>
          if code = 200 then
            (case p of
               BadJson \<Rightarrow> (Inl json_error, s1)
             | IllShaped \<Rightarrow> (Inl attr_error, s1)
             | Body b \<Rightarrow>
                 (Inr \<lparr>rem_success = True, rem_count = get_default (j_remaining b) 0,
                       rem_resets_in = Some (get_default (j_resets_in b) 0)\<rparr>, s1))
          else (Inr \<lparr>rem_success = False, rem_count = 0, rem_resets_in = None\<rparr>, s1))"

definition check_username_available ::
  "env \<Rightarrow> string \<Rightarrow> string \<Rightarrow> sys \<Rightarrow> (exn + bool) \<times> sys" where
  "check_username_available e access_token username s =
     (case send e None None USERNAME_CHECK_URL access_token [username] s of
        (Inl x, s1) \<Rightarrow> (Inl x, s1)
      | (Inr (Raised x), s1) \<Rightarrow> (Inl x, s1)
      | (Inr (Resp code p), s1) \<Rightarrow>
          if code = 200 then
            (case p of
               BadJson \<Rightarrow> (Inl json_error, s1)
             | IllShaped \<Rightarrow> (Inl attr_error, s1)
             | Body b \<Rightarrow> (Inr (get_default (j_available b) False), s1))
          else (Inr False, s1))"

definition set_username ::
  "env \<Rightarrow> string \<Rightarrow> string \<Rightarrow> sys \<Rightarrow> (exn + body) \<times> sys" where
  "set_username e access_token username s =
     (case send e None None USERNAME_SET_URL access_token [username] s of
        (Inl x, s1) \<Rightarrow> (Inl x, s1)
      | (Inr (Raised x), s1) \<Rightarrow> (Inl x, s1)
      | (Inr (Resp code p), s1) \<Rightarrow>
          if code = 200 then
            (case p of
               BadJson \<Rightarrow> (Inl json_error, s1)
             | IllShaped \<Rightarrow> (Inl attr_error, s1)
             | Body b \<Rightarrow> (Inr b, s1))
          else (Inl (Exn OtherError (''Failed to set username: '' @ str_int code)), s1))"

text \<open>
  The two exchanges. Each re-raises whatever its \<^verbatim>\<open>try\<close> block raised. An empty
  response text is read as \<open>BadJson\<close>: both raise a \<^verbatim>\<open>ValueError\<close>.
\<close>

record st_result =
  st_access_token :: string
  st_email :: "string option"

definition st_to_at ::
  "env \<Rightarrow> string \<Rightarrow> string option \<Rightarrow> sys \<Rightarrow> (exn + st_result) \<times> sys" where
  "st_to_at e session_token purl_arg s =
     (case send e None purl_arg SESSION_URL session_token [] s of
        (Inl x, s1) \<Rightarrow> (Inl x, s1)
      | (Inr (Raised x), s1) \<Rightarrow> (Inl x, s1)
      | (Inr (Resp code p), s1) \<Rightarrow>
          if code \<noteq> 200
          then (Inl (Exn ValueError (''Failed to convert ST to AT: '' @ str_int code)), s1)
          else
            (case p of
               BadJson \<Rightarrow> (Inl (Exn ValueError ''Failed to parse JSON response''), s1)
             | IllShaped \<Rightarrow> (Inl attr_error, s1)
             | Body b \<Rightarrow>
                 if truthy (j_access_token b)
                 then (Inr \<lparr>st_access_token = get_default (j_access_token b) [],
                            st_email = j_email b\<rparr>, s1)
                 else (Inl (Exn ValueError ''Missing accessToken in response''), s1)))"

record rt_result =
  rt_access_token :: string
  rt_refresh_token :: "string option"

definition rt_to_at ::
  "env \<Rightarrow> string \<Rightarrow> string option \<Rightarrow> string option \<Rightarrow> sys \<Rightarrow> (exn + rt_result) \<times> sys" where
  "rt_to_at e refresh_token cid_arg purl_arg s =
     (let effective_client_id = (if truthy cid_arg then get_default cid_arg [] else DEFAULT_CLIENT_ID)
      in case send e None purl_arg OAUTH_URL [] [effective_client_id, refresh_token] s of
           (Inl x, s1) \<Rightarrow> (Inl x, s1)
         | (Inr (Raised x), s1) \<Rightarrow> (Inl x, s1)
         | (Inr (Resp code p), s1) \<Rightarrow>
             if code \<noteq> 200
             then (Inl (Exn ValueError (''Failed to convert RT to AT: '' @ str_int code)), s1)
             else
               (case p of
                  BadJson \<Rightarrow> (Inl (Exn ValueError ''Failed to parse JSON response''), s1)
                | IllShaped \<Rightarrow> (Inl attr_error, s1)
                | Body b \<Rightarrow>
                    if truthy (j_access_token b)
                    then (Inr \<lparr>rt_access_token = get_default (j_access_token b) [],
                               rt_refresh_token = j_refresh_token b\<rparr>, s1)
                    else (Inl (Exn ValueError ''Missing access_token in response''), s1)))"

definition decode_jwt :: "env \<Rightarrow> string \<Rightarrow> exn + jwt_claims" where
  "decode_jwt e tok =
     (case jwt_decode e tok of
        None \<Rightarrow> Inl (Exn ValueError ''Invalid JWT token'')
      | Some claims \<Rightarrow> Inr claims)"

text \<open>
  \<^verbatim>\<open>_generate_random_username\<close>. \<^verbatim>\<open>str.isalpha\<close> and \<^verbatim>\<open>str.lower\<close> are
  modelled on the ASCII letters. All six candidates are built before one is chosen, so
  a name without a letter raises \<^verbatim>\<open>IndexError\<close> at \<^verbatim>\<open>[0]\<close>.
\<close>

definition is_alpha :: "char \<Rightarrow> bool" where
  "is_alpha c =
     (let n = (of_char c :: nat) in (65 \<le> n \<and> n \<le> 90) \<or> (97 \<le> n \<and> n \<le> 122))"

definition generate_random_username :: "env \<Rightarrow> sys \<Rightarrow> (exn + string) \<times> sys" where
  "generate_random_username e s =
     (let d = username_at e (usernames_drawn s);
          s1 = s\<lparr>usernames_drawn := Suc (usernames_drawn s)\<rparr>;
          first_name_clean = filter is_alpha (draw_first d);
          last_name_clean = filter is_alpha (draw_last d);
          random_digits = str_int (draw_digits d)
      in if first_name_clean = [] \<or> last_name_clean = []
         then (Inl (Exn IndexError ''string index out of range''), s1)
         else
           let candidates =
                 [first_name_clean @ last_name_clean @ random_digits,
                  first_name_clean @ ''.'' @ last_name_clean @ random_digits,
                  first_name_clean @ random_digits,
                  last_name_clean @ random_digits,
                  hd first_name_clean # last_name_clean @ random_digits,
                  first_name_clean @ hd last_name_clean # random_digits]
           in (Inr (py_lower (candidates ! (draw_choice d mod 6))), s1))"

subsection \<open>More of the credential table\<close>

text \<open>
  Modelled from the spec: the remaining operations of the storage collaborator, each
  writing the field its name says (\<^verbatim>\<open>database.py\<close> is not among the sources).
  \<^verbatim>\<open>addToken(record)\<close> stores the row under an id no row has yet.
\<close>

definition db_get_token_by_value :: "string \<Rightarrow> sys \<Rightarrow> Token option" where
  "db_get_token_by_value v s = find (\<lambda>t. token t = v) (db_tokens s)"

definition next_token_id :: "Token list \<Rightarrow> int" where
  "next_token_id ts = foldr (\<lambda>t m. max (token_id t + 1) m) ts 1"

definition db_add_token :: "Token \<Rightarrow> sys \<Rightarrow> int \<times> sys" where
  "db_add_token t s =
     (let i = next_token_id (db_tokens s)
      in (i, s\<lparr>db_tokens := db_tokens s @ [t\<lparr>token_id := i\<rparr>]\<rparr>))"

definition db_update_token_status :: "int \<Rightarrow> bool \<Rightarrow> sys \<Rightarrow> sys" where
  "db_update_token_status tid active s = db_map_token tid (\<lambda>t. t\<lparr>is_active := active\<rparr>) s"

definition db_reset_error_count :: "int \<Rightarrow> sys \<Rightarrow> sys" where
  "db_reset_error_count tid s = db_map_token tid (\<lambda>t. t\<lparr>consecutive_error_count := 0\<rparr>) s"

definition db_clear_token_expired :: "int \<Rightarrow> sys \<Rightarrow> sys" where
  "db_clear_token_expired tid s = db_map_token tid (\<lambda>t. t\<lparr>is_expired := False\<rparr>) s"

definition db_mark_token_expired :: "int \<Rightarrow> sys \<Rightarrow> sys" where
  "db_mark_token_expired tid s = db_map_token tid (\<lambda>t. t\<lparr>is_expired := True\<rparr>) s"

definition db_update_token_phone_verified :: "int \<Rightarrow> bool option \<Rightarrow> sys \<Rightarrow> sys" where
  "db_update_token_phone_verified tid v s = db_map_token tid (\<lambda>t. t\<lparr>is_phone_verified := v\<rparr>) s"

definition db_update_token_sora2 ::
  "int \<Rightarrow> bool \<Rightarrow> string option \<Rightarrow> int \<Rightarrow> int \<Rightarrow> int \<Rightarrow> sys \<Rightarrow> sys" where
  "db_update_token_sora2 tid supported code redeemed total_count remaining s =
     db_map_token tid
       (\<lambda>t. t\<lparr>sora2_supported := Some supported, sora2_invite_code := code,
              sora2_redeemed_count := redeemed, sora2_total_count := total_count,
              sora2_remaining_count := remaining\<rparr>) s"

definition db_update_token_sora2_remaining :: "int \<Rightarrow> int \<Rightarrow> sys \<Rightarrow> sys" where
  "db_update_token_sora2_remaining tid remaining s =
     db_map_token tid (\<lambda>t. t\<lparr>sora2_remaining_count := remaining\<rparr>) s"

definition db_update_token_sora2_cooldown :: "int \<Rightarrow> real option \<Rightarrow> sys \<Rightarrow> sys" where
  "db_update_token_sora2_cooldown tid until s =
     db_map_token tid (\<lambda>t. t\<lparr>sora2_cooldown_until := until\<rparr>) s"

definition enable_token :: "int \<Rightarrow> sys \<Rightarrow> sys" where
  "enable_token tid s =
     db_clear_token_expired tid (db_reset_error_count tid (db_update_token_status tid True s))"

definition disable_token :: "int \<Rightarrow> sys \<Rightarrow> sys" where
  "disable_token tid s = db_update_token_status tid False s"

subsection \<open>Validation: \<^verbatim>\<open>test_token\<close>\<close>

text \<open>
  Reading the subscription: the \<^verbatim>\<open>try\<close> block that \<^verbatim>\<open>add_token\<close>,
  \<^verbatim>\<open>update_existing_token\<close> and \<^verbatim>\<open>test_token\<close> share. The result is the exception
  that ended the block, if any, and the three variables as they stand then. What is done
  with the exception differs between the callers.
\<close>

definition read_subscription ::
  "env \<Rightarrow> string \<Rightarrow> int option \<Rightarrow> string option \<Rightarrow> sys
     \<Rightarrow> (exn option \<times> string option \<times> string option \<times> real option) \<times> sys" where
  "read_subscription e tok tid_arg purl_arg s =
     (case get_subscription_info e tok tid_arg purl_arg s of
        (Inl x, s1) \<Rightarrow> ((Some x, None, None, None), s1)
      | (Inr info, s1) \<Rightarrow>
          let ptype = Some (sub_plan_type info);
              ptitle = Some (sub_plan_title info)
          in if sub_end info \<noteq> [] then
               (case parse_date e (sub_end info) of
                  Inl x \<Rightarrow> ((Some x, ptype, ptitle, None), s1)
                | Inr d \<Rightarrow> ((None, ptype, ptitle, Some d), s1))
             else ((None, ptype, ptitle, None), s1))"

text \<open>
  Step 1 of \<^verbatim>\<open>test_token\<close>: the exchange through the session credential, then, if
  that did not refresh, through the refresh credential. The result is the variables
  \<^verbatim>\<open>access_token\<close> and \<^verbatim>\<open>at_refreshed\<close>.
\<close>

definition test_refresh_st :: "env \<Rightarrow> int \<Rightarrow> Token \<Rightarrow> sys \<Rightarrow> (string \<times> bool) \<times> sys" where
  "test_refresh_st e tid token_data s =
     (if truthy (st token_data) then
        (case st_to_at e (get_default (st token_data) []) (proxy_url token_data) s of
           (Inl x, s1) \<Rightarrow> ((token token_data, False), s1)
         | (Inr res, s1) \<Rightarrow>
             (case decode_jwt e (st_access_token res) of
                Inl x \<Rightarrow> ((st_access_token res, False), s1)
              | Inr decoded \<Rightarrow>
                  ((st_access_token res, True),
                   db_update_token tid
                     (no_update\<lparr>set_token := Some (st_access_token res),
                                set_expiry_time := jwt_exp decoded\<rparr>) s1)))
      else ((token token_data, False), s))"

definition test_refresh_rt ::
  "env \<Rightarrow> int \<Rightarrow> Token \<Rightarrow> string \<Rightarrow> bool \<Rightarrow> sys \<Rightarrow> (string \<times> bool) \<times> sys" where
  "test_refresh_rt e tid token_data access_token at_refreshed s =
     (if \<not> at_refreshed \<and> truthy (rt token_data) then
        (case rt_to_at e (get_default (rt token_data) []) (client_id token_data)
                (proxy_url token_data) s of
           (Inl x, s1) \<Rightarrow> ((access_token, at_refreshed), s1)
         | (Inr res, s1) \<Rightarrow>
             (case decode_jwt e (rt_access_token res) of
                Inl x \<Rightarrow> ((rt_access_token res, at_refreshed), s1)
              | Inr decoded \<Rightarrow>
                  ((rt_access_token res, True),
                   db_update_token tid
                     (no_update\<lparr>set_token := Some (rt_access_token res),
                                set_rt := (if truthy (rt_refresh_token res)
                                           then rt_refresh_token res else rt token_data),
                                set_expiry_time := jwt_exp decoded\<rparr>) s1)))
      else ((access_token, at_refreshed), s))"

text \<open>
  The remaining-count lookup that \<^verbatim>\<open>add_token\<close> and \<^verbatim>\<open>test_token\<close> wrap in a
  \<^verbatim>\<open>try\<close> of its own: the count, or \<open>d\<close> when the call raised or did not succeed.
\<close>

definition read_remaining ::
  "env \<Rightarrow> string \<Rightarrow> int option \<Rightarrow> string option \<Rightarrow> int \<Rightarrow> sys \<Rightarrow> int \<times> sys" where
  "read_remaining e access_token tid_arg purl_arg d s =
     (case get_sora2_remaining_count e access_token tid_arg purl_arg s of
        (Inl x, s1) \<Rightarrow> (d, s1)
      | (Inr info, s1) \<Rightarrow> (if rem_success info then rem_count info else d, s1))"

text \<open>Step 2 of \<^verbatim>\<open>test_token\<close>: the body of its \<^verbatim>\<open>try\<close> block.\<close>

definition test_account :: "env \<Rightarrow> int \<Rightarrow> string \<Rightarrow> sys \<Rightarrow> (exn + unit) \<times> sys" where
  "test_account e tid access_token s =
     (case get_user_info e access_token (Some tid) None s of
        (Inl x, s1) \<Rightarrow> (Inl x, s1)
      | (Inr user_info, s1) \<Rightarrow>
          let s2 = db_update_token_phone_verified tid (j_phone_verified user_info) s1;
              ((sub_exn, ptype, ptitle, pend), s3) =
                read_subscription e access_token (Some tid) None s2
          in case get_sora2_invite_code e access_token (Some tid) None s3 of
               (Inl x, s4) \<Rightarrow> (Inl x, s4)
             | (Inr info, s4) \<Rightarrow>
                 let (remaining, s5) =
                       (if inv_supported info
                        then read_remaining e access_token (Some tid) None 0 s4
                        else (0, s4));
                     s6 = db_update_token tid
                            (no_update\<lparr>set_plan_type := ptype, set_plan_title := ptitle,
                                       set_subscription_end := pend\<rparr>) s5;
                     s7 = db_update_token_sora2 tid (inv_supported info) (inv_code info)
                            (get_default (inv_redeemed info) 0)
                            (get_default (inv_total info) 0) remaining s6
                 in (Inr (), db_clear_token_expired tid s7))"

text \<open>\<^verbatim>\<open>test_token\<close>; the result is the \<^verbatim>\<open>valid\<close> entry of the dict it returns.\<close>

definition test_token :: "env \<Rightarrow> int \<Rightarrow> sys \<Rightarrow> bool \<times> sys" where
  "test_token e tid s =
     (case db_get_token tid s of
        None \<Rightarrow> (False, s)
      | Some token_data \<Rightarrow>
          let ((at1, refreshed1), s1) = test_refresh_st e tid token_data s;
              ((at2, refreshed2), s2) = test_refresh_rt e tid token_data at1 refreshed1 s1
          in case test_account e tid at2 s2 of
               (Inr done, s3) \<Rightarrow> (True, s3)
             | (Inl x, s3) \<Rightarrow>
                 let error_msg = str_of_exn x
                 in if contains error_msg ''401'' \<and>
                       contains (py_lower error_msg) ''token_invalidated''
                    then (False, db_mark_token_expired tid s3)
                    else (False, s3))"

subsection \<open>Updating a credential\<close>

text \<open>
  \<^verbatim>\<open>TokenManager.update_token\<close>, with the keyword arguments \<^verbatim>\<open>token\<close>,
  \<^verbatim>\<open>st\<close>, \<^verbatim>\<open>rt\<close>, \<^verbatim>\<open>client_id\<close>, \<^verbatim>\<open>proxy_url\<close> and
  \<^verbatim>\<open>skip_status_update\<close>.
\<close>

definition update_token ::
  "env \<Rightarrow> int \<Rightarrow> string option \<Rightarrow> string option \<Rightarrow> string option \<Rightarrow> string option
     \<Rightarrow> string option \<Rightarrow> bool \<Rightarrow> sys \<Rightarrow> sys" where
  "update_token e tid tok_arg st_arg rt_arg cid_arg purl_arg skip_status_update s =
     (let expiry =
            (if truthy tok_arg then
               (case decode_jwt e (get_default tok_arg []) of
                  Inl x \<Rightarrow> None
                | Inr decoded \<Rightarrow> jwt_exp decoded)
             else None);
          s1 = db_update_token tid
                 (no_update\<lparr>set_token := tok_arg, set_st := st_arg, set_rt := rt_arg,
                            set_client_id := cid_arg, set_proxy_url := purl_arg,
                            set_expiry_time := expiry\<rparr>) s
      in if truthy tok_arg \<and> \<not> skip_status_update then
           (case test_token e tid s1 of
              (valid, s2) \<Rightarrow>
                if valid then db_clear_token_expired tid (db_update_token_status tid True s2)
                else s2)
         else s1)"

subsection \<open>Usage accounting: \<^verbatim>\<open>record_success\<close>\<close>

text \<open>The body of the \<^verbatim>\<open>try\<close> block that \<^verbatim>\<open>record_success\<close> runs for a video.\<close>

definition record_success_try :: "env \<Rightarrow> int \<Rightarrow> sys \<Rightarrow> (exn + unit) \<times> sys" where
  "record_success_try e tid s =
     (case db_get_token tid s of
        None \<Rightarrow> (Inr (), s)
      | Some token_data \<Rightarrow>
          if sora2_supported token_data = Some True then
            (case get_sora2_remaining_count e (token token_data) (Some tid) None s of
               (Inl x, s1) \<Rightarrow> (Inl x, s1)
             | (Inr remaining_info, s1) \<Rightarrow>
                 if rem_success remaining_info then
                   (let remaining_count = rem_count remaining_info;
                        s2 = db_update_token_sora2_remaining tid remaining_count s1
                    in if remaining_count \<le> 1 then
                         (let reset_seconds = get_default (rem_resets_in remaining_info) 0;
                              s3 = (if reset_seconds > 0 then
                                      (let (now, s') = time_time e s2
                                       in db_update_token_sora2_cooldown tid
                                            (Some (now + reset_seconds)) s')
                                    else s2)
                          in (Inr (), disable_token tid s3))
                       else (Inr (), s2))
                 else (Inr (), s1))
          else (Inr (), s))"

definition record_success :: "env \<Rightarrow> int \<Rightarrow> bool \<Rightarrow> sys \<Rightarrow> sys" where
  "record_success e tid is_video s =
     (let s0 = db_reset_error_count tid s
      in if is_video then snd (record_success_try e tid s0) else s0)"

subsection \<open>Refreshing an expiring credential\<close>

text \<open>
  Steps 6 and 7 of \<^verbatim>\<open>auto_refresh_expiring_token\<close>. Each gives the variable
  \<^verbatim>\<open>new_at\<close> and the secondary credential to store with it.
\<close>

definition refresh_with_st ::
  "env \<Rightarrow> Token \<Rightarrow> sys \<Rightarrow> (string option \<times> string option) \<times> sys" where
  "refresh_with_st e token_data s =
     (if truthy (st token_data) then
        (case st_to_at e (get_default (st token_data) []) None s of
           (Inr res, s1) \<Rightarrow> ((Some (st_access_token res), st token_data), s1)
         | (Inl x, s1) \<Rightarrow> ((None, None), s1))
      else ((None, None), s))"

definition refresh_with_rt ::
  "env \<Rightarrow> Token \<Rightarrow> string option \<Rightarrow> sys \<Rightarrow> (string option \<times> string option) \<times> sys" where
  "refresh_with_rt e token_data new_at s =
     (if \<not> truthy new_at \<and> truthy (rt token_data) then
        (case rt_to_at e (get_default (rt token_data) []) (client_id token_data) None s of
           (Inr res, s1) \<Rightarrow> ((Some (rt_access_token res), rt_refresh_token res), s1)
         | (Inl x, s1) \<Rightarrow> ((None, None), s1))
      else ((new_at, None), s))"

text \<open>
  Steps 8 and 9: store the new credential, read the row back and look at its expiry.
  Reading \<^verbatim>\<open>.expiry_time\<close> of a row that is gone raises.
\<close>

definition store_refreshed ::
  "env \<Rightarrow> int \<Rightarrow> string option \<Rightarrow> string option \<Rightarrow> string option \<Rightarrow> sys
     \<Rightarrow> (exn + bool) \<times> sys" where
  "store_refreshed e tid new_at new_st new_rt s =
     (let s1 = update_token e tid new_at new_st new_rt None None False s
      in case db_get_token tid s1 of
           None \<Rightarrow> (Inl attr_error, s1)
         | Some updated_token \<Rightarrow>
             let (new_hours_until_expiry, s2) =
                   (case expiry_time updated_token of
                      None \<Rightarrow> (- 1, s1)
                    | Some new_expiry_time \<Rightarrow>
                        (let (now, s') = time_time e s1
                         in ((new_expiry_time - now) / 3600, s')))
             in if new_hours_until_expiry < 0 then (Inr False, disable_token tid s2)
                else (Inr True, s2))"

text \<open>The body of the \<^verbatim>\<open>try\<close> block of \<^verbatim>\<open>auto_refresh_expiring_token\<close>.\<close>

definition auto_refresh_try :: "env \<Rightarrow> int \<Rightarrow> sys \<Rightarrow> (exn + bool) \<times> sys" where
  "auto_refresh_try e tid s =
     (case db_get_token tid s of
        None \<Rightarrow> (Inr False, s)
      | Some token_data \<Rightarrow>
          (case expiry_time token_data of
             None \<Rightarrow> (Inr False, s)
           | Some expiry \<Rightarrow>
               let (now, s1) = time_time e s;
                   hours_until_expiry = (expiry - now) / 3600
               in if hours_until_expiry > 24 then (Inr False, s1)
                  else
                    let ((at1, new_st), s2) = refresh_with_st e token_data s1;
                        ((new_at, new_rt), s3) = refresh_with_rt e token_data at1 s2
                    in if truthy new_at then store_refreshed e tid new_at new_st new_rt s3
                       else (Inr False, disable_token tid s3)))"

definition auto_refresh_expiring_token :: "env \<Rightarrow> int \<Rightarrow> sys \<Rightarrow> bool \<times> sys" where
  "auto_refresh_expiring_token e tid s =
     (case auto_refresh_try e tid s of
        (Inr b, s') \<Rightarrow> (b, s')
      | (Inl x, s') \<Rightarrow> (False, s'))"

subsection \<open>Registration: \<^verbatim>\<open>add_token\<close>\<close>

text \<open>\<^verbatim>\<open>email.split("@")[0] if email else ""\<close>.\<close>

definition local_part :: "string \<Rightarrow> string" where
  "local_part em = takeWhile (\<lambda>c. c \<noteq> CHR ''@'') em"

text \<open>
  The first \<^verbatim>\<open>try\<close> of the normal mode: the account's e-mail and name, from the
  remote account or, when that call raises, from the credential itself.
\<close>

definition fetch_identity ::
  "env \<Rightarrow> string \<Rightarrow> string option \<Rightarrow> string option \<Rightarrow> sys \<Rightarrow> (string \<times> string) \<times> sys" where
  "fetch_identity e token_value purl_arg jwt_mail s =
     (case get_user_info e token_value None purl_arg s of
        (Inr user_info, s1) \<Rightarrow>
          ((get_default (j_email user_info) (get_default jwt_mail []),
            get_default (j_name user_info) []), s1)
      | (Inl x, s1) \<Rightarrow>
          (let em = get_default jwt_mail [] in ((em, local_part em), s1)))"

text \<open>
  The second \<^verbatim>\<open>try\<close>: the subscription. Its handler raises again when the message
  has the expiry text in it and swallows the exception otherwise.
\<close>

definition fetch_subscription ::
  "env \<Rightarrow> string \<Rightarrow> string option \<Rightarrow> sys
     \<Rightarrow> (exn + string option \<times> string option \<times> real option) \<times> sys" where
  "fetch_subscription e token_value purl_arg s =
     (case read_subscription e token_value None purl_arg s of
        ((None, plan), s1) \<Rightarrow> (Inr plan, s1)
      | ((Some x, plan), s1) \<Rightarrow>
          if contains (str_of_exn x) TOKEN_EXPIRED_TEXT then (Inl x, s1)
          else (Inr plan, s1))"

text \<open>
  The third \<^verbatim>\<open>try\<close>: the invite code and the remaining count. Its handler raises
  again when the message has the region text in it. The result is the five
  \<^verbatim>\<open>sora2_\<close> variables.
\<close>

record sora2_state =
  s2_supported :: "bool option"
  s2_invite_code :: "string option"
  s2_redeemed_count :: int
  s2_total_count :: int
  s2_remaining_count :: int

definition fetch_sora2 ::
  "env \<Rightarrow> string \<Rightarrow> string option \<Rightarrow> sys \<Rightarrow> (exn + sora2_state) \<times> sys" where
  "fetch_sora2 e token_value purl_arg s =
     (case get_sora2_invite_code e token_value None purl_arg s of
        (Inr info, s1) \<Rightarrow>
          (let (remaining, s2) =
                 (if inv_supported info then read_remaining e token_value None purl_arg 0 s1
                  else (0, s1))
           in (Inr \<lparr>s2_supported = Some (inv_supported info), s2_invite_code = inv_code info,
                    s2_redeemed_count = get_default (inv_redeemed info) 0,
                    s2_total_count = get_default (inv_total info) 0,
                    s2_remaining_count = remaining\<rparr>, s2))
      | (Inl x, s1) \<Rightarrow>
          if contains (str_of_exn x) REGION_TEXT then (Inl x, s1)
          else (Inr \<lparr>s2_supported = None, s2_invite_code = None, s2_redeemed_count = 0,
                     s2_total_count = 0, s2_remaining_count = 0\<rparr>, s1))"

text \<open>
  The \<^verbatim>\<open>for attempt in range(max_attempts)\<close> loop that claims a username. The first
  component is the exception that left the loop, if any.
\<close>

fun username_loop :: "env \<Rightarrow> string \<Rightarrow> nat \<Rightarrow> sys \<Rightarrow> exn option \<times> sys" where
  "username_loop e token_value 0 s = (None, s)"
| "username_loop e token_value (Suc n) s =
     (case generate_random_username e s of
        (Inl x, s1) \<Rightarrow> (Some x, s1)
      | (Inr generated_username, s1) \<Rightarrow>
          (case check_username_available e token_value generated_username s1 of
             (Inl x, s2) \<Rightarrow> (Some x, s2)
           | (Inr available, s2) \<Rightarrow>
               if available then
                 (case set_username e token_value generated_username s2 of
                    (Inr done, s3) \<Rightarrow> (None, s3)
                  | (Inl x, s3) \<Rightarrow> username_loop e token_value n s3)
               else username_loop e token_value n s2))"

text \<open>The fourth \<^verbatim>\<open>try\<close>: its handler swallows every exception.\<close>

definition ensure_username :: "env \<Rightarrow> string \<Rightarrow> string option \<Rightarrow> sys \<Rightarrow> sys" where
  "ensure_username e token_value purl_arg s =
     (case get_user_info e token_value None purl_arg s of
        (Inl x, s1) \<Rightarrow> s1
      | (Inr user_info, s1) \<Rightarrow>
          (case j_username user_info of
             Some username \<Rightarrow> s1
           | None \<Rightarrow> snd (username_loop e token_value 5 s1)))"

definition update_existing_token ::
  "env \<Rightarrow> int \<Rightarrow> string \<Rightarrow> string option \<Rightarrow> string option \<Rightarrow> sys
     \<Rightarrow> (exn + Token option) \<times> sys" where
  "update_existing_token e tid token_value st_arg rt_arg s =
     (case decode_jwt e token_value of
        Inl x \<Rightarrow> (Inl x, s)
      | Inr decoded \<Rightarrow>
          let (ident, s1) = fetch_identity e token_value None (jwt_email decoded) s;
              ((sub_exn, ptype, ptitle, pend), s2) = read_subscription e token_value None None s1;
              s3 = db_update_token tid
                     (no_update\<lparr>set_token := Some token_value, set_st := st_arg,
                                set_rt := rt_arg, set_expiry_time := jwt_exp decoded,
                                set_plan_type := ptype, set_plan_title := ptitle,
                                set_subscription_end := pend\<rparr>) s2
          in (Inr (db_get_token tid s3), s3))"

text \<open>
  \<^verbatim>\<open>add_token\<close>, with the arguments \<^verbatim>\<open>token_value\<close>, \<^verbatim>\<open>st\<close>, \<^verbatim>\<open>rt\<close>,
  \<^verbatim>\<open>client_id\<close>, \<^verbatim>\<open>proxy_url\<close>, \<^verbatim>\<open>update_if_exists\<close>,
  \<^verbatim>\<open>skip_status_update\<close> and \<^verbatim>\<open>email\<close>.
\<close>

definition new_token ::
  "string \<Rightarrow> string \<Rightarrow> string \<Rightarrow> string option \<Rightarrow> string option \<Rightarrow> string option
     \<Rightarrow> string option \<Rightarrow> real option \<Rightarrow> string option \<times> string option \<times> real option
     \<Rightarrow> sora2_state \<Rightarrow> Token" where
  "new_token token_value em nm st_arg rt_arg cid_arg purl_arg expiry plan sora2 =
     \<lparr>token_id = 0, token = token_value, email = em, name = nm, st = st_arg, rt = rt_arg,
      client_id = cid_arg, proxy_url = purl_arg, expiry_time = expiry, is_active = True,
      is_expired = False, plan_type = fst plan, plan_title = fst (snd plan),
      subscription_end = snd (snd plan), sora2_supported = s2_supported sora2,
      sora2_invite_code = s2_invite_code sora2,
      sora2_redeemed_count = s2_redeemed_count sora2,
      sora2_total_count = s2_total_count sora2,
      sora2_remaining_count = s2_remaining_count sora2,
      sora2_cooldown_until = None, is_phone_verified = None,
      error_count = 0, consecutive_error_count = 0\<rparr>"

definition store_new_token :: "Token \<Rightarrow> sys \<Rightarrow> (exn + Token option) \<times> sys" where
  "store_new_token t s =
     (case db_add_token t s of (i, s1) \<Rightarrow> (Inr (Some (t\<lparr>token_id := i\<rparr>)), s1))"

definition add_token ::
  "env \<Rightarrow> string \<Rightarrow> string option \<Rightarrow> string option \<Rightarrow> string option \<Rightarrow> string option
     \<Rightarrow> bool \<Rightarrow> bool \<Rightarrow> string option \<Rightarrow> sys \<Rightarrow> (exn + Token option) \<times> sys" where
  "add_token e token_value st_arg rt_arg cid_arg purl_arg update_if_exists skip_status_update
     email_arg s =
     (case db_get_token_by_value token_value s of
        Some existing_token \<Rightarrow>
          if \<not> update_if_exists then (Inl (Exn ValueError ''Token already exists''), s)
          else update_existing_token e (token_id existing_token) token_value st_arg rt_arg s
      | None \<Rightarrow>
          (case decode_jwt e token_value of
             Inl x \<Rightarrow> (Inl x, s)
           | Inr decoded \<Rightarrow>
               if skip_status_update then
                 (let em = (if truthy email_arg then get_default email_arg []
                            else get_default (jwt_email decoded) [])
                  in store_new_token
                       (new_token token_value em (local_part em) st_arg rt_arg cid_arg purl_arg
                          (jwt_exp decoded) (None, None, None)
                          \<lparr>s2_supported = None, s2_invite_code = None,
                           s2_redeemed_count = - 1, s2_total_count = - 1,
                           s2_remaining_count = - 1\<rparr>) s)
               else
                 (let ((em, nm), s1) = fetch_identity e token_value purl_arg (jwt_email decoded) s
                  in case fetch_subscription e token_value purl_arg s1 of
                       (Inl x, s2) \<Rightarrow> (Inl x, s2)
                     | (Inr plan, s2) \<Rightarrow>
                         (case fetch_sora2 e token_value purl_arg s2 of
                            (Inl x, s3) \<Rightarrow> (Inl x, s3)
                          | (Inr sora2, s3) \<Rightarrow>
                              store_new_token
                                (new_token token_value em nm st_arg rt_arg cid_arg purl_arg
                                   (jwt_exp decoded) plan sora2)
                                (ensure_username e token_value purl_arg s3)))))"

section \<open>Notions used to state the properties\<close>

subsection \<open>The pool across a refresh\<close>

text \<open>
  The key under which \<^verbatim>\<open>_refresh_proxy_list\<close> stores an element of the fetched
  list, if the element passes the three filters.
\<close>

definition entry_score :: "proxy_data \<Rightarrow> real" where
  "entry_score d = get_default (pd_score d) 0"

definition entry_key :: "json_entry \<Rightarrow> string option" where
  "entry_key j =
     (case j of
        NotADict \<Rightarrow> None
      | Dict d \<Rightarrow>
          if entry_score d < MIN_SCORE then None
          else if get_default (pd_ip d) [] = [] \<or> get_default (pd_port d) 0 = 0 then None
          else if get_default (pd_protocol d) ''http'' \<notin> set ALLOWED_PROTOCOLS then None
          else Some (get_default (pd_protocol d) ''http'' @ ''://'' @ get_default (pd_ip d) []
                       @ '':'' @ str_int (get_default (pd_port d) 0)))"

definition entry_country :: "proxy_data \<Rightarrow> string" where
  "entry_country d =
     (case pd_geolocation d of GeoDict c \<Rightarrow> get_default c ''Unknown'' | _ \<Rightarrow> ''Unknown'')"

text \<open>Two records that differ at most in the origin score.\<close>

definition same_but_score :: "ProxyInfo \<Rightarrow> ProxyInfo \<Rightarrow> bool" where
  "same_but_score p p' \<longleftrightarrow> (\<exists>sc. p' = p\<lparr>score := sc\<rparr>)"

text \<open>The health state of a record that was never probed.\<close>

definition fresh_health :: "ProxyInfo \<Rightarrow> bool" where
  "fresh_health p \<longleftrightarrow>
     success_count p = 0 \<and> failure_count p = 0 \<and> last_used p = None \<and>
     last_success p = None \<and> last_failure p = None \<and> avg_response_time p = 0 \<and> is_healthy p"

text \<open>
  \<open>carried old0 new\<close>: every record of \<open>new\<close> is the record \<open>old0\<close> has under the same
  key, but for the score, or a fresh one when \<open>old0\<close> has none. \<open>rescored old0 old\<close>:
  the two pools have the same keys and their records differ in the score only.
\<close>

definition carried :: "(string \<times> ProxyInfo) list \<Rightarrow> (string \<times> ProxyInfo) list \<Rightarrow> bool" where
  "carried old0 new \<longleftrightarrow>
     (\<forall>k p'. map_of new k = Some p' \<longrightarrow>
        (case map_of old0 k of Some p \<Rightarrow> same_but_score p p' | None \<Rightarrow> fresh_health p'))"

definition rescored :: "(string \<times> ProxyInfo) list \<Rightarrow> (string \<times> ProxyInfo) list \<Rightarrow> bool" where
  "rescored old0 old \<longleftrightarrow> (\<forall>k. rel_option same_but_score (map_of old0 k) (map_of old k))"

subsection \<open>Runs of the pool\<close>

text \<open>
  The operations that write a pool record without being a \<^verbatim>\<open>report_success\<close>: a
  failure report for some URL, and a refresh of the list.
\<close>

datatype pool_event = ReportFailure string | RefreshList

fun pool_step :: "env \<Rightarrow> pool_event \<Rightarrow> sys \<Rightarrow> sys" where
  "pool_step e (ReportFailure u) s = report_failure e u s"
| "pool_step e RefreshList s = refresh_proxy_list e s"

fun pool_run :: "env \<Rightarrow> pool_event list \<Rightarrow> sys \<Rightarrow> sys" where
  "pool_run e [] s = s"
| "pool_run e (ev # evs) s = pool_run e evs (pool_step e ev s)"

text \<open>The key \<open>k\<close> is in the pool after every step of the run.\<close>

fun key_kept :: "env \<Rightarrow> string \<Rightarrow> pool_event list \<Rightarrow> sys \<Rightarrow> bool" where
  "key_kept e k [] s = True"
| "key_kept e k (ev # evs) s =
     (map_of (proxies (pool_step e ev s)) k \<noteq> None \<and> key_kept e k evs (pool_step e ev s))"

definition unhealthy_at :: "string \<Rightarrow> sys \<Rightarrow> bool" where
  "unhealthy_at k s = (case map_of (proxies s) k of None \<Rightarrow> False | Some p \<Rightarrow> \<not> is_healthy p)"

subsection \<open>Probes and their results\<close>

text \<open>
  What a racing task returned against what its probe gave: a pair with the probed URL
  exactly when the status was 200.
\<close>

definition probe_matches :: "(string \<times> real) option \<Rightarrow> string \<times> http_outcome \<Rightarrow> bool" where
  "probe_matches c x \<longleftrightarrow>
     (if snd x = Status 200 then \<exists>t. c = Some (fst x, t) else c = None)"

text \<open>
  What \<^verbatim>\<open>bind_proxy_to_token\<close> guarantees, for a call with a budget of attempts that
  starts in \<open>s\<close> with the URLs \<open>tried\<close> excluded and ends in \<open>s'\<close> with the result
  \<open>r\<close>: the probes of the call are the new entries of the log.
\<close>

definition bind_post ::
  "int \<Rightarrow> int \<Rightarrow> string list \<Rightarrow> sys \<Rightarrow> (exn + string option) \<Rightarrow> sys \<Rightarrow> bool" where
  "bind_post tid budget tried s r s' \<longleftrightarrow>
     (\<exists>new. probe_log s' = probe_log s @ new \<and> int (length new) \<le> max 0 budget \<and>
        (case r of
           Inl x \<Rightarrow> False
         | Inr None \<Rightarrow> list_all (\<lambda>x. snd x \<noteq> Status 200) new \<and> db_tokens s' = db_tokens s
         | Inr (Some u) \<Rightarrow>
             u \<notin> set tried \<and> u \<noteq> [] \<and> new \<noteq> [] \<and> last new = (u, Status 200) \<and>
             list_all (\<lambda>x. snd x \<noteq> Status 200) (butlast new) \<and>
             db_tokens s' =
               map (\<lambda>t. if token_id t = tid then t\<lparr>proxy_url := Some u\<rparr> else t) (db_tokens s)))"

section \<open>Sample data\<close>

text \<open>Concrete records, states and environments on which the theorems are run.\<close>

definition sample_proxy :: "string \<Rightarrow> nat \<Rightarrow> nat \<Rightarrow> real \<Rightarrow> bool \<Rightarrow> ProxyInfo" where
  "sample_proxy u succ fails avg healthy =
     \<lparr>url = u, protocol = ''socks5'', ip = ''10.0.0.1'', port = 1080, https = False,
      anonymity = ''elite'', score = 1, country = ''US'',
      success_count = succ, failure_count = fails,
      last_used = None, last_success = None, last_failure = None,
      avg_response_time = avg, is_healthy = healthy\<rparr>"

text \<open>A proxy that answered its only probe, in ten seconds.\<close>

definition slow_proxy :: ProxyInfo where
  "slow_proxy = sample_proxy ''socks5://a:1'' 1 0 10 True"

definition sample_token :: "int \<Rightarrow> string option \<Rightarrow> Token" where
  "sample_token i p =
     \<lparr>token_id = i, token = ''at-old'', email = ''a@b.c'', name = ''a'', st = None, rt = None,
      client_id = None, proxy_url = p, expiry_time = None, is_active = True,
      is_expired = False, plan_type = None, plan_title = None, subscription_end = None,
      sora2_supported = Some True, sora2_invite_code = None, sora2_redeemed_count = 0,
      sora2_total_count = 0, sora2_remaining_count = 5, sora2_cooldown_until = None,
      is_phone_verified = None, error_count = 2, consecutive_error_count = 2\<rparr>"

definition empty_body :: body where
  "empty_body =
     \<lparr>error_code = None, error_message = None, error_param = None, j_email = None,
      j_name = None, j_username = None, j_phone_verified = None, j_has_subscription = False,
      j_plan_id = None, j_plan_title = None, j_end_ts = None, j_invite_code = None,
      j_redeemed_count = None, j_total_count = None, j_remaining = None, j_resets_in = None,
      j_access_token = None, j_refresh_token = None, j_available = None\<rparr>"

text \<open>
  An environment in which the clock shows the number of its readings, one proxy
  answers the probe, the proxy list cannot be fetched and no remote call gets through.
\<close>

definition sample_env :: env where
  "sample_env =
     \<lparr>time_at = (\<lambda>n. real n),
      probe_at = (\<lambda>n u. if u = ''socks5://c:3'' then Status 200 else Status 503),
      fetch_at = (\<lambda>n. FetchRaises (Exn OtherError ''timed out'')),
      api_at = (\<lambda>n r. Raised (Exn OtherError ''timed out'')),
      username_at = (\<lambda>n. \<lparr>draw_first = ''Ada'', draw_last = ''Lovelace'',
                             draw_digits = 42, draw_choice = n\<rparr>),
      jwt_decode = (\<lambda>t. None),
      parse_date = (\<lambda>t. Inl (Exn ValueError ''Unknown string format''))\<rparr>"

text \<open>
  A state with four pooled proxies, the last one unhealthy, and two credentials; the
  second credential is bound to the second proxy. The pool was refreshed at time 0.
\<close>

definition sample_sys :: sys where
  "sample_sys =
     \<lparr>proxies = [(''socks5://a:1'', sample_proxy ''socks5://a:1'' 2 1 (1 / 2) True),
                 (''socks5://b:2'', sample_proxy ''socks5://b:2'' 0 2 0 True),
                 (''socks5://c:3'', sample_proxy ''socks5://c:3'' 0 0 0 True),
                 (''socks5://f:6'', sample_proxy ''socks5://f:6'' 0 5 0 False)],
      last_refresh = Some 0, initialized = True,
      free_proxy_manager_set = True, free_proxy_enabled = True,
      db_tokens = [sample_token 1 None, sample_token 2 (Some ''socks5://b:2'')],
      db_proxy_enabled = False, db_proxy_url = None,
      clock_reads = 0, probe_log = [], fetches = 0, api_log = [], usernames_drawn = 0\<rparr>"

text \<open>A proxy list that sees the first proxy again, brings a new one and a rejected one.\<close>

definition sample_entry :: "string \<Rightarrow> int \<Rightarrow> real \<Rightarrow> json_entry" where
  "sample_entry addr prt sc =
     Dict \<lparr>pd_score = Some sc, pd_protocol = Some ''socks5'', pd_ip = Some addr,
           pd_port = Some prt, pd_https = None, pd_anonymity = Some ''elite'',
           pd_geolocation = GeoDict (Some ''DE'')\<rparr>"

definition sample_list :: "json_entry list" where
  "sample_list = [sample_entry ''a'' 1 (9 / 10), sample_entry ''d'' 4 (3 / 4),
                  sample_entry ''e'' 5 (1 / 10)]"

definition listing_env :: env where
  "listing_env = sample_env\<lparr>fetch_at := (\<lambda>n. FetchStatus 200 (Some sample_list))\<rparr>"

text \<open>
  The scenario of the specification for the race: the first proxy fails, the second
  answers in half a second, the third in a fifth of a second.
\<close>

definition race_env :: env where
  "race_env =
     sample_env\<lparr>time_at := (\<lambda>n. if n = 6 then 11 / 2 else if n = 10 then 46 / 5 else real n),
                probe_at := (\<lambda>n u. if u = ''socks5://a:1'' then Status 503 else Status 200)\<rparr>"

text \<open>The pool after the sample list was fetched in the sample state.\<close>

definition refreshed_pool :: "(string \<times> ProxyInfo) list" where
  "refreshed_pool =
     [(''socks5://a:1'', (sample_proxy ''socks5://a:1'' 2 1 (1 / 2) True)\<lparr>score := 9 / 10\<rparr>),
      (''socks5://d:4'',
       new_proxy_info ''socks5://d:4'' ''socks5'' ''d'' 4 (3 / 4)
         \<lparr>pd_score = Some (3 / 4), pd_protocol = Some ''socks5'', pd_ip = Some ''d'',
          pd_port = Some 4, pd_https = None, pd_anonymity = Some ''elite'',
          pd_geolocation = GeoDict (Some ''DE'')\<rparr> ''DE'')]"

section \<open>Properties of the proxy pool\<close>

lemmas sample_defs =
  sample_env_def sample_sys_def sample_proxy_def sample_token_def race_env_def

lemmas pool_defs =
  ensure_fresh_proxies_def time_time_def REFRESH_INTERVAL_def Let_def
  get_healthy_proxies_def sort_desc_def sort_key_of_def key_less_def health_score_def
  PREFERRED_ANONYMITY_def get_default_def
  health_check_proxy_def health_check_try_def session_get_health_def
  report_success_def report_failure_def too_many_failures_def FAILURE_THRESHOLD_def

subsection \<open>What each operation leaves alone\<close>

lemma time_time_frame [simp]:
  "probe_log (snd (time_time e s)) = probe_log s"
  "db_tokens (snd (time_time e s)) = db_tokens s"
  "api_log (snd (time_time e s)) = api_log s"
  "proxies (snd (time_time e s)) = proxies s"
  "clock_reads (snd (time_time e s)) = Suc (clock_reads s)"
  "fst (time_time e s) = time_at e (clock_reads s)"
  by (simp_all add: time_time_def)

lemma report_success_frame [simp]:
  "probe_log (report_success e u t s) = probe_log s"
  "db_tokens (report_success e u t s) = db_tokens s"
  "api_log (report_success e u t s) = api_log s"
  by (simp_all add: report_success_def Let_def case_prod_beta split: option.splits)

lemma report_failure_frame [simp]:
  "probe_log (report_failure e u s) = probe_log s"
  "db_tokens (report_failure e u s) = db_tokens s"
  "api_log (report_failure e u s) = api_log s"
  by (simp_all add: report_failure_def Let_def case_prod_beta split: option.splits)

lemma refresh_proxy_list_frame [simp]:
  "probe_log (refresh_proxy_list e s) = probe_log s"
  "db_tokens (refresh_proxy_list e s) = db_tokens s"
  "api_log (refresh_proxy_list e s) = api_log s"
  by (simp_all add: refresh_proxy_list_def Let_def case_prod_beta
      split: fetch_outcome.splits option.splits)

lemma ensure_fresh_proxies_frame [simp]:
  "probe_log (ensure_fresh_proxies e s) = probe_log s"
  "db_tokens (ensure_fresh_proxies e s) = db_tokens s"
  "api_log (ensure_fresh_proxies e s) = api_log s"
  by (simp_all add: ensure_fresh_proxies_def Let_def case_prod_beta split: option.splits)

lemma initialize_frame [simp]:
  "probe_log (initialize e s) = probe_log s"
  "db_tokens (initialize e s) = db_tokens s"
  "api_log (initialize e s) = api_log s"
  by (simp_all add: initialize_def)

lemma get_best_proxy_frame [simp]:
  "probe_log (snd (get_best_proxy e ex s)) = probe_log s"
  "db_tokens (snd (get_best_proxy e ex s)) = db_tokens s"
  "api_log (snd (get_best_proxy e ex s)) = api_log s"
  by (simp_all add: get_best_proxy_def Let_def split: option.splits)

subsection \<open>Health reports\<close>

lemma report_failure_target:
  "map_of (proxies s) u = Some p \<Longrightarrow>
   map_of (proxies (report_failure e u s)) u =
     Some (p\<lparr>failure_count := failure_count p + 1,
             last_used := Some (time_at e (clock_reads s)),
             last_failure := Some (time_at e (Suc (clock_reads s))),
             is_healthy :=
               (is_healthy p \<and> \<not> too_many_failures (success_count p) (failure_count p + 1))\<rparr>)"
  by (auto simp add: report_failure_def time_time_def Let_def update_conv')

lemma report_failure_other:
  "k \<noteq> u \<Longrightarrow> map_of (proxies (report_failure e u s)) k = map_of (proxies s) k"
  by (auto simp add: report_failure_def time_time_def Let_def update_conv' split: option.splits)

lemma report_success_target:
  "map_of (proxies s) u = Some p \<Longrightarrow>
   \<exists>p'. map_of (proxies (report_success e u t s)) u = Some p' \<and> is_healthy p' \<and>
        success_count p' = success_count p + 1"
  by (auto simp add: report_success_def time_time_def Let_def update_conv')

lemma report_failure_unhealthy:
  assumes "unhealthy_at k s"
  shows "unhealthy_at k (report_failure e u s)"
proof (cases "k = u")
  case True
  from assms obtain p where "map_of (proxies s) u = Some p" "\<not> is_healthy p"
    using True by (auto simp: unhealthy_at_def split: option.splits)
  then show ?thesis
    using True by (simp add: unhealthy_at_def report_failure_target)
next
  case False
  with assms show ?thesis
    by (simp add: unhealthy_at_def report_failure_other)
qed

subsection \<open>The refresh loop\<close>

lemma refresh_loop_skip:
  "entry_key (Dict d) = None \<Longrightarrow> refresh_loop (Dict d # ds) old new = refresh_loop ds old new"
  by (auto simp: entry_key_def entry_score_def Let_def split: if_splits)

lemma refresh_loop_known:
  "entry_key (Dict d) = Some k \<Longrightarrow> map_of old k = Some ex \<Longrightarrow>
   refresh_loop (Dict d # ds) old new =
     refresh_loop ds (AList.update k (ex\<lparr>score := entry_score d\<rparr>) old)
       (AList.update k (ex\<lparr>score := entry_score d\<rparr>) new)"
  by (auto simp: entry_key_def entry_score_def Let_def split: if_splits)

lemma refresh_loop_new:
  "entry_key (Dict d) = Some k \<Longrightarrow> map_of old k = None \<Longrightarrow>
   refresh_loop (Dict d # ds) old new =
     (if pd_geolocation d = GeoNotDict then (old, None)
      else refresh_loop ds old
        (AList.update k (new_proxy_info k (get_default (pd_protocol d) ''http'')
           (get_default (pd_ip d) []) (get_default (pd_port d) 0) (entry_score d) d
           (entry_country d)) new))"
  by (auto simp: entry_key_def entry_score_def entry_country_def Let_def
      split: if_splits geolocation.splits)

lemma same_but_score_refl: "same_but_score p p"
  by (auto simp: same_but_score_def intro: exI[of _ "score p"])

lemma same_but_score_update: "same_but_score p ex \<Longrightarrow> same_but_score p (ex\<lparr>score := sc\<rparr>)"
  by (auto simp: same_but_score_def)

lemma rescored_refl: "rescored old0 old0"
  by (simp add: rescored_def option.rel_refl same_but_score_refl)

lemma carried_empty: "carried old0 []"
  by (simp add: carried_def)

lemma rescored_known:
  assumes "rescored old0 old" "map_of old k = Some ex"
  shows "\<exists>p. map_of old0 k = Some p \<and> same_but_score p ex"
proof -
  from assms(1) have "rel_option same_but_score (map_of old0 k) (map_of old k)"
    by (simp add: rescored_def)
  with assms(2) show ?thesis
    by (cases "map_of old0 k") auto
qed

lemma rescored_absent:
  assumes "rescored old0 old" "map_of old k = None"
  shows "map_of old0 k = None"
proof -
  from assms(1) have "rel_option same_but_score (map_of old0 k) (map_of old k)"
    by (simp add: rescored_def)
  with assms(2) show ?thesis
    by (cases "map_of old0 k") auto
qed

lemma rescored_update:
  assumes "rescored old0 old" "map_of old k = Some ex"
  shows "rescored old0 (AList.update k (ex\<lparr>score := sc\<rparr>) old)"
proof -
  obtain p where p: "map_of old0 k = Some p" "same_but_score p ex"
    using rescored_known[OF assms] by (elim exE conjE)
  show ?thesis
    unfolding rescored_def
  proof
    fix k'
    show "rel_option same_but_score (map_of old0 k')
            (map_of (AList.update k (ex\<lparr>score := sc\<rparr>) old) k')"
    proof (cases "k' = k")
      case True
      with p show ?thesis by (simp add: update_conv' same_but_score_update)
    next
      case False
      with assms(1) show ?thesis by (simp add: update_conv' rescored_def)
    qed
  qed
qed

lemma carried_update_known:
  assumes "rescored old0 old" "carried old0 new" "map_of old k = Some ex"
  shows "carried old0 (AList.update k (ex\<lparr>score := sc\<rparr>) new)"
proof -
  obtain p where p: "map_of old0 k = Some p" "same_but_score p ex"
    using rescored_known[OF assms(1,3)] by (elim exE conjE)
  then have "same_but_score p (ex\<lparr>score := sc\<rparr>)"
    by (simp add: same_but_score_update)
  with p(1) assms(2) show ?thesis
    unfolding carried_def by (simp add: update_conv')
qed

lemma carried_update_new:
  assumes "rescored old0 old" "carried old0 new" "map_of old k = None"
  shows "carried old0 (AList.update k (new_proxy_info k a b c sc d ctry) new)"
proof -
  have "map_of old0 k = None"
    by (rule rescored_absent[OF assms(1,3)])
  moreover have "fresh_health (new_proxy_info k a b c sc d ctry)"
    by (simp add: fresh_health_def new_proxy_info_def)
  ultimately show ?thesis
    using assms(2) unfolding carried_def by (simp add: update_conv')
qed

lemma refresh_loop_inv:
  "rescored old0 old \<Longrightarrow> carried old0 new \<Longrightarrow> refresh_loop ds old new = (old', r) \<Longrightarrow>
   rescored old0 old' \<and>
   (\<forall>new'. r = Some new' \<longrightarrow>
      carried old0 new' \<and>
      fst ` set new' = fst ` set new \<union> {k. \<exists>j \<in> set ds. entry_key j = Some k})"
proof (induction ds arbitrary: old new)
  case Nil
  then show ?case by auto
next
  case (Cons j ds)
  show ?case
  proof (cases j)
    case NotADict
    with Cons.prems show ?thesis by auto
  next
    case (Dict d)
    show ?thesis
    proof (cases "entry_key (Dict d)")
      case None
      with Cons.prems Dict have "refresh_loop ds old new = (old', r)"
        by (simp add: refresh_loop_skip del: refresh_loop.simps)
      from Cons.IH[OF Cons.prems(1,2) this] None Dict show ?thesis by auto
    next
      case (Some k)
      note key = this
      show ?thesis
      proof (cases "map_of old k")
        case None
        note absent = this
        show ?thesis
        proof (cases "pd_geolocation d = GeoNotDict")
          case True
          with Cons.prems Dict key absent show ?thesis
            by (simp add: refresh_loop_new del: refresh_loop.simps)
        next
          case False
          let ?new = "AList.update k (new_proxy_info k (get_default (pd_protocol d) ''http'')
             (get_default (pd_ip d) []) (get_default (pd_port d) 0) (entry_score d) d
             (entry_country d)) new"
          from Cons.prems Dict key absent False
          have run: "refresh_loop ds old ?new = (old', r)"
            by (simp add: refresh_loop_new del: refresh_loop.simps)
          have c: "carried old0 ?new"
            by (rule carried_update_new[OF Cons.prems(1,2) absent])
          from Cons.IH[OF Cons.prems(1) c run] key Dict show ?thesis
            by (auto simp: dom_update)
        qed
      next
        case (Some ex)
        note known = this
        let ?ex = "ex\<lparr>score := entry_score d\<rparr>"
        from Cons.prems Dict key known
        have run: "refresh_loop ds (AList.update k ?ex old) (AList.update k ?ex new) = (old', r)"
          by (simp add: refresh_loop_known del: refresh_loop.simps)
        have r: "rescored old0 (AList.update k ?ex old)"
          by (rule rescored_update[OF Cons.prems(1) known])
        have c: "carried old0 (AList.update k ?ex new)"
          by (rule carried_update_known[OF Cons.prems(1,2) known])
        from Cons.IH[OF r c run] key Dict show ?thesis
          by (auto simp: dom_update)
      qed
    qed
  qed
qed

lemma refresh_loop_from_pool:
  assumes "refresh_loop data pool [] = (old', r)"
  shows "rescored pool old'"
    and "r = Some new \<Longrightarrow> carried pool new"
    and "r = Some new \<Longrightarrow> fst ` set new = {k. \<exists>j \<in> set data. entry_key j = Some k}"
  using refresh_loop_inv[OF rescored_refl carried_empty assms] by auto

lemma refresh_success:
  assumes "fetch_at e (fetches s) = FetchStatus 200 (Some data)"
      and "refresh_loop data (proxies s) [] = (old', Some new)"
  shows "proxies (refresh_proxy_list e s) = new"
    and "last_refresh (refresh_proxy_list e s) = Some (time_at e (clock_reads s))"
  using assms by (simp_all add: refresh_proxy_list_def Let_def case_prod_beta time_time_def)

lemma refresh_rescored:
  assumes a: "map_of (proxies s) k = Some p"
      and b: "map_of (proxies (refresh_proxy_list e s)) k = Some p'"
  shows "same_but_score p p'"
proof (cases "fetch_at e (fetches s)")
  case (FetchRaises x)
  with a b show ?thesis by (simp add: refresh_proxy_list_def Let_def same_but_score_refl)
next
  case (FetchStatus code body)
  show ?thesis
  proof (cases "code = 200 \<and> body \<noteq> None")
    case False
    with a b FetchStatus show ?thesis
      by (auto simp add: refresh_proxy_list_def Let_def same_but_score_refl split: option.splits)
  next
    case True
    then obtain data where body: "body = Some data" "code = 200" by auto
    obtain old' r where loop: "refresh_loop data (proxies s) [] = (old', r)"
      by (cases "refresh_loop data (proxies s) []")
    show ?thesis
    proof (cases r)
      case None
      with b FetchStatus body loop have "map_of old' k = Some p'"
        by (simp add: refresh_proxy_list_def Let_def)
      with rescored_known[OF refresh_loop_from_pool(1)[OF loop] this] a show ?thesis by auto
    next
      case (Some new')
      with b FetchStatus body loop have new: "map_of new' k = Some p'"
        by (simp add: refresh_proxy_list_def Let_def case_prod_beta time_time_def)
      have "carried (proxies s) new'"
        by (rule refresh_loop_from_pool(2)[OF loop Some])
      with new a show ?thesis
        unfolding carried_def by (auto dest!: spec[of _ k] spec[of _ p'])
    qed
  qed
qed

lemma refresh_unhealthy:
  assumes u: "unhealthy_at k s"
      and kept: "map_of (proxies (refresh_proxy_list e s)) k \<noteq> None"
  shows "unhealthy_at k (refresh_proxy_list e s)"
proof -
  from u obtain p where p: "map_of (proxies s) k = Some p" "\<not> is_healthy p"
    by (auto simp: unhealthy_at_def split: option.splits)
  from kept obtain p' where p': "map_of (proxies (refresh_proxy_list e s)) k = Some p'"
    by auto
  from refresh_rescored[OF p(1) p'] p(2) have "\<not> is_healthy p'"
    by (auto simp: same_but_score_def)
  with p' show ?thesis by (simp add: unhealthy_at_def)
qed

lemma pool_run_unhealthy:
  "unhealthy_at k s \<Longrightarrow> key_kept e k evs s \<Longrightarrow> unhealthy_at k (pool_run e evs s)"
proof (induction evs arbitrary: s)
  case Nil
  then show ?case by simp
next
  case (Cons ev evs)
  have "unhealthy_at k (pool_step e ev s)"
  proof (cases ev)
    case (ReportFailure u)
    with Cons.prems(1) show ?thesis by (simp add: report_failure_unhealthy)
  next
    case RefreshList
    with Cons.prems show ?thesis by (simp add: refresh_unhealthy)
  qed
  with Cons show ?case by simp
qed

subsection \<open>The health score\<close>

text \<open>
  C1. The health score of a record without probes is its origin score. For a probed
  record the code does not compute the formula of the specification: it weighs the
  response time twice, once in \<^verbatim>\<open>time_penalty\<close> and once in the sum, so the score is
  \<open>(0.7 * successRate + 0.3 * (1 - 0.3 * min(1, avg / 10))) * 10\<close>.
\<close>

theorem health_score_formula:
  "health_score p =
     (if success_count p + failure_count p = 0 then score p
      else (7 / 10 * (real (success_count p) / real (success_count p + failure_count p))
            + 3 / 10 * (1 - 3 / 10 * min 1 (avg_response_time p / 10))) * 10)"
  unfolding health_score_def Let_def by (simp only: mult.commute)

text \<open>
  The formula as the specification states it fails on a record with one successful
  probe that took ten seconds: the code gives 9.1, the formula 7.
\<close>

theorem health_score_spec_formula_counterexample:
  "health_score slow_proxy = 91 / 10 \<and> spec_health_score slow_proxy = 7 \<and>
   health_score slow_proxy \<noteq> spec_health_score slow_proxy"
  by (simp add: health_score_def spec_health_score_def slow_proxy_def sample_proxy_def Let_def)

subsection \<open>A refresh of the pool\<close>

lemma carried_known:
  "carried old0 new \<Longrightarrow> map_of old0 k = Some p \<Longrightarrow> map_of new k = Some p' \<Longrightarrow>
   same_but_score p p'"
  unfolding carried_def by (drule spec[of _ k], drule spec[of _ p'], simp)

lemma carried_fresh:
  "carried old0 new \<Longrightarrow> map_of old0 k = None \<Longrightarrow> map_of new k = Some p' \<Longrightarrow>
   fresh_health p'"
  unfolding carried_def by (drule spec[of _ k], drule spec[of _ p'], simp)

text \<open>
  C7. When the list is fetched with status 200 and the loop over it does not raise, the
  pool becomes the dict the loop built. A record whose key was in the pool before is the
  old record with at most another origin score, so its counters, its three timestamps,
  its average response time and its health flag are as before. A record under a new key
  has the health state of a record never probed and is healthy. The keys of the new pool
  are the keys of the elements that pass the filters, so a record whose URL is not among
  them is gone.
\<close>

theorem refresh_preserves_health:
  assumes "fetch_at e (fetches s) = FetchStatus 200 (Some data)"
      and "refresh_loop data (proxies s) [] = (old', Some new)"
  shows "proxies (refresh_proxy_list e s) = new
       \<and> (\<forall>k p p'. map_of (proxies s) k = Some p \<longrightarrow> map_of new k = Some p'
             \<longrightarrow> (\<exists>sc. p' = p\<lparr>score := sc\<rparr>))
       \<and> (\<forall>k p'. map_of (proxies s) k = None \<longrightarrow> map_of new k = Some p' \<longrightarrow> fresh_health p')
       \<and> (\<forall>k. (map_of new k \<noteq> None) = (\<exists>j \<in> set data. entry_key j = Some k))"
proof -
  have c: "carried (proxies s) new"
    by (rule refresh_loop_from_pool(2)[OF assms(2) refl])
  have keys: "fst ` set new = {k. \<exists>j \<in> set data. entry_key j = Some k}"
    by (rule refresh_loop_from_pool(3)[OF assms(2) refl])
  have 1: "proxies (refresh_proxy_list e s) = new"
    by (rule refresh_success(1)[OF assms])
  have 2: "\<forall>k p p'. map_of (proxies s) k = Some p \<longrightarrow> map_of new k = Some p'
             \<longrightarrow> (\<exists>sc. p' = p\<lparr>score := sc\<rparr>)"
    using carried_known[OF c] unfolding same_but_score_def by blast
  have 3: "\<forall>k p'. map_of (proxies s) k = None \<longrightarrow> map_of new k = Some p' \<longrightarrow> fresh_health p'"
    using carried_fresh[OF c] by blast
  have 4: "\<forall>k. (map_of new k \<noteq> None) = (\<exists>j \<in> set data. entry_key j = Some k)"
  proof
    fix k
    have "(map_of new k \<noteq> None) = (k \<in> fst ` set new)"
      by (simp add: map_of_eq_None_iff)
    also have "\<dots> = (\<exists>j \<in> set data. entry_key j = Some k)"
      using keys by auto
    finally show "(map_of new k \<noteq> None) = (\<exists>j \<in> set data. entry_key j = Some k)" .
  qed
  from 1 2 3 4 show ?thesis by simp
qed

theorem refresh_preserves_health_witness:
  "proxies (refresh_proxy_list listing_env sample_sys) = refreshed_pool
   \<and> map_of refreshed_pool ''socks5://a:1''
       = Some ((sample_proxy ''socks5://a:1'' 2 1 (1 / 2) True)\<lparr>score := 9 / 10\<rparr>)
   \<and> (\<exists>p'. map_of refreshed_pool ''socks5://d:4'' = Some p' \<and> fresh_health p')
   \<and> map_of refreshed_pool ''socks5://b:2'' = None"
proof -
  have h1: "fetch_at listing_env (fetches sample_sys) = FetchStatus 200 (Some sample_list)"
    by (simp add: listing_env_def)
  have h2: "refresh_loop sample_list (proxies sample_sys) []
              = (AList.update ''socks5://a:1''
                   ((sample_proxy ''socks5://a:1'' 2 1 (1 / 2) True)\<lparr>score := 9 / 10\<rparr>)
                   (proxies sample_sys), Some refreshed_pool)"
    by (simp add: sample_list_def sample_entry_def sample_sys_def refreshed_pool_def
        get_default_def MIN_SCORE_def ALLOWED_PROTOCOLS_def Let_def str_int_def digit_char_def)
  from refresh_preserves_health[OF h1 h2]
  have eq: "proxies (refresh_proxy_list listing_env sample_sys) = refreshed_pool"
    and new: "\<forall>k p'. map_of (proxies sample_sys) k = None \<longrightarrow> map_of refreshed_pool k = Some p'
           \<longrightarrow> fresh_health p'"
    by blast+
  have absent: "map_of (proxies sample_sys) ''socks5://d:4'' = None"
    by (simp add: sample_sys_def)
  obtain p' where p': "map_of refreshed_pool ''socks5://d:4'' = Some p'"
    by (simp add: refreshed_pool_def)
  from new absent p' have "fresh_health p'"
    by blast
  with p' eq show ?thesis
    by (simp add: refreshed_pool_def)
qed

subsection \<open>Failure reports\<close>

text \<open>
  C8. \<^verbatim>\<open>report_failure\<close> on a pooled URL adds one to the failure counter, stamps
  \<^verbatim>\<open>last_used\<close> and \<^verbatim>\<open>last_failure\<close> with two readings of the clock, and leaves
  the record healthy exactly if it was healthy and the new failure count is below 3 or
  there is a success and the share of failures is at most one half. So a healthy record
  becomes unhealthy if and only if the condition holds, and stays healthy below the
  threshold. Through any run of failure reports and refreshes that keeps a key in the
  pool, an unhealthy record under that key stays unhealthy; \<^verbatim>\<open>report_success\<close> makes
  the record healthy.
\<close>

theorem report_failure_health:
  "(map_of (proxies s) u = Some p \<longrightarrow>
      map_of (proxies (report_failure e u s)) u =
        Some (p\<lparr>failure_count := failure_count p + 1,
                last_used := Some (time_at e (clock_reads s)),
                last_failure := Some (time_at e (Suc (clock_reads s))),
                is_healthy :=
                  (is_healthy p \<and>
                   \<not> (failure_count p + 1 \<ge> 3 \<and>
                      (success_count p = 0 \<or>
                       real (failure_count p + 1) / real (success_count p + (failure_count p + 1))
                         > 1 / 2)))\<rparr>))
   \<and> (unhealthy_at k s \<longrightarrow> key_kept e k evs s \<longrightarrow> unhealthy_at k (pool_run e evs s))
   \<and> (map_of (proxies s) u = Some p \<longrightarrow>
        (\<exists>p'. map_of (proxies (report_success e u t s)) u = Some p' \<and> is_healthy p'))"
  using report_failure_target[of s u p e] pool_run_unhealthy[of k s e evs]
    report_success_target[of s u p e t]
  by (auto simp: too_many_failures_def FAILURE_THRESHOLD_def)

theorem report_failure_health_witness:
  "map_of (proxies (report_failure sample_env ''socks5://b:2'' sample_sys)) ''socks5://b:2''
     = Some ((sample_proxy ''socks5://b:2'' 0 2 0 True)
              \<lparr>failure_count := 3, last_used := Some 0, last_failure := Some 1,
               is_healthy := False\<rparr>)
   \<and> unhealthy_at ''socks5://f:6''
        (pool_run sample_env [ReportFailure ''socks5://f:6'', ReportFailure ''socks5://a:1'']
           sample_sys)
   \<and> (\<exists>p'. map_of (proxies (report_success sample_env ''socks5://b:2'' (1 / 4) sample_sys))
               ''socks5://b:2'' = Some p' \<and> is_healthy p')"
proof -
  have h1: "map_of (proxies sample_sys) ''socks5://b:2'' = Some (sample_proxy ''socks5://b:2'' 0 2 0 True)"
    by (simp add: sample_sys_def)
  have h2: "unhealthy_at ''socks5://f:6'' sample_sys"
    by (simp add: unhealthy_at_def sample_sys_def sample_proxy_def)
  have h3: "key_kept sample_env ''socks5://f:6''
              [ReportFailure ''socks5://f:6'', ReportFailure ''socks5://a:1''] sample_sys"
    by (simp add: sample_defs pool_defs)
  from report_failure_health[of sample_sys "''socks5://b:2''" "sample_proxy ''socks5://b:2'' 0 2 0 True"
      sample_env "''socks5://f:6''" "[ReportFailure ''socks5://f:6'', ReportFailure ''socks5://a:1'']"
      "1 / 4"] h1 h2 h3
  show ?thesis
    by (simp add: sample_proxy_def sample_env_def sample_sys_def)
qed

subsection \<open>The health probe\<close>

text \<open>
  C9. \<^verbatim>\<open>health_check_proxy\<close> never raises. On status 200 it reports success with the
  difference of the clock after and before the request and returns true; on any other
  status, and when the request raises, it reports a failure and returns false.
\<close>

theorem health_check_proxy_total:
  "health_check_proxy e u s =
     (let out = probe_at e (length (probe_log s)) u;
          s2 = s\<lparr>clock_reads := Suc (clock_reads s), probe_log := probe_log s @ [(u, out)]\<rparr>
      in case out of
           Raises x \<Rightarrow> (Inr False, report_failure e u s2)
         | Status code \<Rightarrow>
             let s3 = s2\<lparr>clock_reads := Suc (Suc (clock_reads s))\<rparr>;
                 latency = time_at e (Suc (clock_reads s)) - time_at e (clock_reads s)
             in if code = 200 then (Inr True, report_success e u latency s3)
                else (Inr False, report_failure e u s3))
   \<and> (\<exists>b. fst (health_check_proxy e u s) = Inr b)"
  by (auto simp add: health_check_proxy_def health_check_try_def session_get_health_def Let_def
      time_time_def split: http_outcome.splits)

subsection \<open>Binding\<close>

lemma first_not_excluded_Some:
  "first_not_excluded ex ps = Some u \<Longrightarrow> u \<notin> set ex"
  by (induction ps) (auto split: if_splits)

lemma get_best_proxy_not_excluded:
  "get_best_proxy e ex s = (Some u, s1) \<Longrightarrow> u \<notin> set (get_default ex [])"
  by (auto simp: get_best_proxy_def Let_def split: option.splits dest: first_not_excluded_Some)

lemma health_check_proxy_cases:
  "health_check_proxy e u s = (r, s') \<Longrightarrow>
     probe_log s' = probe_log s @ [(u, probe_at e (length (probe_log s)) u)] \<and>
     db_tokens s' = db_tokens s \<and> api_log s' = api_log s \<and>
     r = Inr (probe_at e (length (probe_log s)) u = Status 200)"
  by (auto simp: health_check_proxy_def health_check_try_def session_get_health_def Let_def
      case_prod_beta split: sum.splits http_outcome.splits if_splits)

lemma db_update_token_proxy:
  "db_tokens (db_update_token tid (no_update\<lparr>set_proxy_url := Some u\<rparr>) s) =
     map (\<lambda>t. if token_id t = tid then t\<lparr>proxy_url := Some u\<rparr> else t) (db_tokens s)"
  by (simp add: db_update_token_def db_map_token_def apply_update_def no_update_def
      get_default_def keep_or_def)

lemma db_map_token_frame [simp]:
  "probe_log (db_map_token tid f s) = probe_log s"
  "api_log (db_map_token tid f s) = api_log s"
  "proxies (db_map_token tid f s) = proxies s"
  "clock_reads (db_map_token tid f s) = clock_reads s"
  by (simp_all add: db_map_token_def)

lemma bind_loop_post:
  "bind_loop e tid m a tried s = (r, s') \<Longrightarrow> bind_post tid (m - a) tried s r s'"
proof (induction e tid m a tried s arbitrary: r s' rule: bind_loop.induct)
  case (1 e tid m a tried s)
  show ?case
  proof (cases "a < m")
    case False
    with "1.prems" show ?thesis
      by (subst (asm) bind_loop.simps) (auto simp: bind_post_def)
  next
    case True
    obtain c s1 where gb: "get_best_proxy e (if tried = [] then None else Some tried) s = (c, s1)"
      by (cases "get_best_proxy e (if tried = [] then None else Some tried) s")
    have s1: "probe_log s1 = probe_log s" "db_tokens s1 = db_tokens s"
      using get_best_proxy_frame[of e "if tried = [] then None else Some tried" s] gb by simp_all
    show ?thesis
    proof (cases c)
      case None
      with "1.prems" True gb s1 show ?thesis
        by (subst (asm) bind_loop.simps) (auto simp: bind_post_def)
    next
      case (Some u)
      have notin: "u \<notin> set tried"
        using get_best_proxy_not_excluded[of e "if tried = [] then None else Some tried" s u s1]
          gb Some
        by (auto simp: get_default_def split: if_splits)
      show ?thesis
      proof (cases "u = []")
        case True
        with "1.prems" \<open>a < m\<close> gb Some s1 show ?thesis
          by (subst (asm) bind_loop.simps) (auto simp: bind_post_def)
      next
        case False
        obtain h s2 where hc: "health_check_proxy e u s1 = (h, s2)"
          by (cases "health_check_proxy e u s1")
        from health_check_proxy_cases[OF hc] s1
        have s2: "probe_log s2 = probe_log s @ [(u, probe_at e (length (probe_log s)) u)]"
          "db_tokens s2 = db_tokens s"
          "h = Inr (probe_at e (length (probe_log s)) u = Status 200)"
          by simp_all
        show ?thesis
        proof (cases "probe_at e (length (probe_log s)) u = Status 200")
          case True
          with "1.prems" \<open>a < m\<close> gb Some False hc s2
          have r: "r = Inr (Some u)"
            "s' = db_update_token tid (no_update\<lparr>set_proxy_url := Some u\<rparr>) s2"
            by (subst (asm) bind_loop.simps, simp)+
          have "probe_log s' = probe_log s @ [(u, Status 200)]"
            using r(2) s2(1) True by (simp add: db_update_token_def)
          moreover have "db_tokens s' =
              map (\<lambda>t. if token_id t = tid then t\<lparr>proxy_url := Some u\<rparr> else t) (db_tokens s)"
            using r(2) s2(2) by (simp add: db_update_token_proxy)
          ultimately show ?thesis
            using r(1) notin False \<open>a < m\<close> unfolding bind_post_def
            by (intro exI[of _ "[(u, Status 200)]"]) simp
        next
          case failed: False
          with "1.prems" \<open>a < m\<close> gb Some False hc s2
          have run: "bind_loop e tid m (a + 1) (List.insert u tried) s2 = (r, s')"
            by (subst (asm) bind_loop.simps) simp
          have hF: "h = Inr False"
            using s2(3) failed by simp
          have "bind_post tid (m - (a + 1)) (List.insert u tried) s2 r s'"
            using "1.IH"[OF \<open>a < m\<close> gb[symmetric] Some False hc[symmetric] hF _ run]
            by simp
          then obtain new where new: "probe_log s' = probe_log s2 @ new"
            "int (length new) \<le> max 0 (m - (a + 1))"
            and rest: "(case r of
               Inl x \<Rightarrow> False
             | Inr None \<Rightarrow> list_all (\<lambda>x. snd x \<noteq> Status 200) new \<and> db_tokens s' = db_tokens s2
             | Inr (Some v) \<Rightarrow>
                 v \<notin> set (List.insert u tried) \<and> v \<noteq> [] \<and> new \<noteq> [] \<and>
                 last new = (v, Status 200) \<and>
                 list_all (\<lambda>x. snd x \<noteq> Status 200) (butlast new) \<and>
                 db_tokens s' =
                   map (\<lambda>t. if token_id t = tid then t\<lparr>proxy_url := Some v\<rparr> else t)
                     (db_tokens s2))"
            unfolding bind_post_def by (elim exE conjE)
          let ?new = "(u, probe_at e (length (probe_log s)) u) # new"
          have a: "probe_log s' = probe_log s @ ?new"
            using new(1) s2(1) by simp
          have b: "int (length ?new) \<le> max 0 (m - a)"
            using new(2) \<open>a < m\<close> by simp
          have c: "(case r of
               Inl x \<Rightarrow> False
             | Inr None \<Rightarrow> list_all (\<lambda>x. snd x \<noteq> Status 200) ?new \<and> db_tokens s' = db_tokens s
             | Inr (Some v) \<Rightarrow>
                 v \<notin> set tried \<and> v \<noteq> [] \<and> ?new \<noteq> [] \<and> last ?new = (v, Status 200) \<and>
                 list_all (\<lambda>x. snd x \<noteq> Status 200) (butlast ?new) \<and>
                 db_tokens s' =
                   map (\<lambda>t. if token_id t = tid then t\<lparr>proxy_url := Some v\<rparr> else t)
                     (db_tokens s))"
            using rest failed s2(2) by (auto split: sum.splits option.splits)
          show ?thesis
            unfolding bind_post_def by (rule exI[of _ ?new]) (simp only: a b c simp_thms)
        qed
      qed
    qed
  qed
qed

lemma bind_proxy_to_token_post:
  "bind_proxy_to_token e tid exclude_urls max_attempts s = (r, s') \<Longrightarrow>
   bind_post tid max_attempts
     (remdups (used_proxies tid (db_tokens s) @ get_default exclude_urls [])) s r s'"
  using bind_loop_post[of e tid max_attempts 0
      "remdups (used_proxies tid (db_tokens s) @ get_default exclude_urls [])" s r s']
  by (simp add: bind_proxy_to_token_def db_get_all_tokens_def Let_def)

lemma used_proxies_member:
  assumes "t \<in> set ts" "token_id t \<noteq> tid" "proxy_url t = Some u" "u \<noteq> []"
  shows "u \<in> set (used_proxies tid ts)"
proof -
  let ?P = "\<lambda>t. truthy (proxy_url t) \<and> token_id t \<noteq> tid"
  let ?f = "\<lambda>t. get_default (proxy_url t) []"
  have "t \<in> set (filter ?P ts)"
    using assms by (simp add: truthy_def)
  then have "?f t \<in> ?f ` set (filter ?P ts)"
    by (rule imageI)
  moreover have "?f t = u"
    using assms(3) by (simp add: get_default_def)
  ultimately show ?thesis
    by (simp add: used_proxies_def)
qed

text \<open>
  C4. Whatever \<^verbatim>\<open>bind_proxy_to_token\<close> returns, it has probed at most
  \<^verbatim>\<open>max_attempts\<close> candidates (the new entries of the probe log), and it does not
  raise. A URL it returns is the last candidate probed, answered that probe with status
  200, is bound to no other credential in the table read at the start of the call, is
  not among the explicit exclusions, and is stored as the proxy of the credential. When
  it returns nothing, no probe of the call had status 200.
\<close>

theorem bind_proxy_to_token_verified:
  assumes "bind_proxy_to_token e tid exclude_urls max_attempts s = (r, s')"
  shows "\<exists>new. probe_log s' = probe_log s @ new \<and> int (length new) \<le> max 0 max_attempts \<and>
           (case r of
              Inl x \<Rightarrow> False
            | Inr None \<Rightarrow> list_all (\<lambda>x. snd x \<noteq> Status 200) new
            | Inr (Some u) \<Rightarrow>
                new \<noteq> [] \<and> last new = (u, Status 200) \<and>
                (\<forall>t \<in> set (db_tokens s). token_id t \<noteq> tid \<longrightarrow> proxy_url t \<noteq> Some u) \<and>
                u \<notin> set (get_default exclude_urls []) \<and>
                (\<forall>t' \<in> set (db_tokens s'). token_id t' = tid \<longrightarrow> proxy_url t' = Some u))"
proof -
  let ?tried = "remdups (used_proxies tid (db_tokens s) @ get_default exclude_urls [])"
  from bind_proxy_to_token_post[OF assms]
  obtain new where new: "probe_log s' = probe_log s @ new" "int (length new) \<le> max 0 max_attempts"
    and rest: "(case r of
           Inl x \<Rightarrow> False
         | Inr None \<Rightarrow> list_all (\<lambda>x. snd x \<noteq> Status 200) new \<and> db_tokens s' = db_tokens s
         | Inr (Some u) \<Rightarrow>
             u \<notin> set ?tried \<and> u \<noteq> [] \<and> new \<noteq> [] \<and> last new = (u, Status 200) \<and>
             list_all (\<lambda>x. snd x \<noteq> Status 200) (butlast new) \<and>
             db_tokens s' =
               map (\<lambda>t. if token_id t = tid then t\<lparr>proxy_url := Some u\<rparr> else t) (db_tokens s))"
    unfolding bind_post_def by (elim exE conjE)
  have "(case r of
              Inl x \<Rightarrow> False
            | Inr None \<Rightarrow> list_all (\<lambda>x. snd x \<noteq> Status 200) new
            | Inr (Some u) \<Rightarrow>
                new \<noteq> [] \<and> last new = (u, Status 200) \<and>
                (\<forall>t \<in> set (db_tokens s). token_id t \<noteq> tid \<longrightarrow> proxy_url t \<noteq> Some u) \<and>
                u \<notin> set (get_default exclude_urls []) \<and>
                (\<forall>t' \<in> set (db_tokens s'). token_id t' = tid \<longrightarrow> proxy_url t' = Some u))"
  proof (cases r)
    case (Inl x)
    with rest show ?thesis by simp
  next
    case (Inr c)
    show ?thesis
    proof (cases c)
      case None
      from rest show ?thesis
        unfolding Inr None sum.case option.case by blast
    next
      case (Some u)
      from rest have u: "u \<notin> set ?tried" "u \<noteq> []" "new \<noteq> []" "last new = (u, Status 200)"
        "db_tokens s' =
           map (\<lambda>t. if token_id t = tid then t\<lparr>proxy_url := Some u\<rparr> else t) (db_tokens s)"
        unfolding Inr Some sum.case option.case by blast+
      have other: "\<forall>t \<in> set (db_tokens s). token_id t \<noteq> tid \<longrightarrow> proxy_url t \<noteq> Some u"
      proof (intro ballI impI notI)
        fix t
        assume "t \<in> set (db_tokens s)" "token_id t \<noteq> tid" "proxy_url t = Some u"
        then have "u \<in> set (used_proxies tid (db_tokens s))"
          using u(2) by (rule used_proxies_member)
        with u(1) show False by simp
      qed
      have excl: "u \<notin> set (get_default exclude_urls [])"
        using u(1) by simp
      have bound: "\<forall>t' \<in> set (db_tokens s'). token_id t' = tid \<longrightarrow> proxy_url t' = Some u"
      proof (intro ballI impI)
        fix t'
        assume "t' \<in> set (db_tokens s')" and tid: "token_id t' = tid"
        then obtain t where t: "t \<in> set (db_tokens s)"
          "t' = (if token_id t = tid then t\<lparr>proxy_url := Some u\<rparr> else t)"
          unfolding u(5) by (auto simp only: set_map image_iff)
        show "proxy_url t' = Some u"
        proof (cases "token_id t = tid")
          case True
          with t(2) show ?thesis by simp
        next
          case False
          with t(2) tid show ?thesis by simp
        qed
      qed
      show ?thesis
        unfolding Inr Some sum.case option.case
        by (intro conjI u(3) u(4) other excl bound)
    qed
  qed
  with new show ?thesis by (intro exI[of _ new] conjI)
qed

theorem bind_proxy_to_token_verified_witness:
  "fst (bind_proxy_to_token sample_env 1 None 10 sample_sys) = Inr (Some ''socks5://c:3'')
   \<and> (\<exists>new. probe_log (snd (bind_proxy_to_token sample_env 1 None 10 sample_sys))
               = probe_log sample_sys @ new
            \<and> int (length new) \<le> 10 \<and> last new = (''socks5://c:3'', Status 200))"
proof -
  have run: "fst (bind_proxy_to_token sample_env 1 None 10 sample_sys) = Inr (Some ''socks5://c:3'')"
    by (simp add: bind_proxy_to_token_def bind_loop.simps db_get_all_tokens_def used_proxies_def
        truthy_def get_best_proxy_def db_update_token_def db_map_token_def sample_defs pool_defs)
  from bind_proxy_to_token_verified[OF surjective_pairing, of sample_env 1 None 10 sample_sys]
  obtain new where
    "probe_log (snd (bind_proxy_to_token sample_env 1 None 10 sample_sys)) = probe_log sample_sys @ new"
    "int (length new) \<le> max 0 10"
    "new \<noteq> [] \<and> last new = (''socks5://c:3'', Status 200) \<and>
       (\<forall>t \<in> set (db_tokens sample_sys). token_id t \<noteq> 1 \<longrightarrow> proxy_url t \<noteq> Some ''socks5://c:3'') \<and>
       ''socks5://c:3'' \<notin> set (get_default None []) \<and>
       (\<forall>t' \<in> set (db_tokens (snd (bind_proxy_to_token sample_env 1 None 10 sample_sys))).
           token_id t' = 1 \<longrightarrow> proxy_url t' = Some ''socks5://c:3'')"
    unfolding run sum.case option.case by (elim exE conjE) (rule that, assumption+, intro conjI, assumption+)
  then show ?thesis
    using run by (intro conjI exI[of _ new]) simp_all
qed

subsection \<open>The race\<close>

lemma test_proxy_log:
  "probe_log (snd (test_proxy e u s)) = probe_log s @ [(u, probe_at e (length (probe_log s)) u)]"
  by (simp add: test_proxy_def session_get_health_def Let_def case_prod_beta
      split: http_outcome.splits)

lemma test_proxy_result:
  "fst (test_proxy e u s) =
     (if probe_at e (length (probe_log s)) u = Status 200
      then Some (u, time_at e (Suc (clock_reads s)) - time_at e (clock_reads s)) else None)"
  by (simp add: test_proxy_def session_get_health_def Let_def case_prod_beta
      split: http_outcome.splits)

lemma test_proxy_matches:
  "probe_matches (fst (test_proxy e u s)) (u, probe_at e (length (probe_log s)) u)"
  by (simp add: test_proxy_result probe_matches_def)

lemma gather_tests_log:
  "gather_tests e us s = (completed, s') \<Longrightarrow>
     \<exists>new. probe_log s' = probe_log s @ new \<and> map fst new = us \<and>
           list_all2 probe_matches completed new"
proof (induction us arbitrary: s completed s')
  case Nil
  then show ?case by simp
next
  case (Cons u us)
  obtain r s1 where t: "test_proxy e u s = (r, s1)"
    by (cases "test_proxy e u s")
  obtain rs s2 where g: "gather_tests e us s1 = (rs, s2)"
    by (cases "gather_tests e us s1")
  from Cons.prems t g have res: "completed = r # rs" "s' = s2"
    by simp_all
  from Cons.IH[OF g] obtain new where new: "probe_log s2 = probe_log s1 @ new"
    "map fst new = us" "list_all2 probe_matches rs new"
    by (elim exE conjE)
  let ?x = "(u, probe_at e (length (probe_log s)) u)"
  have t': "probe_log s1 = probe_log s @ [?x]" "probe_matches r ?x"
    using test_proxy_log[of e u s] test_proxy_matches[of e u s] t by simp_all
  have a: "probe_log s' = probe_log s @ (?x # new)"
    using new(1) t'(1) res by simp
  have b: "map fst (?x # new) = u # us"
    using new(2) by simp
  have c: "list_all2 probe_matches completed (?x # new)"
    using new(3) t'(2) res by simp
  show ?case
    by (rule exI[of _ "?x # new"]) (simp only: a b c)
qed

lemma hd_sort_key_min:
  fixes f :: "'a \<Rightarrow> real"
  assumes "xs \<noteq> []"
  shows "hd (sort_key f xs) \<in> set xs \<and> (\<forall>y \<in> set xs. f (hd (sort_key f xs)) \<le> f y)"
proof -
  have ne: "sort_key f xs \<noteq> []"
  proof
    assume "sort_key f xs = []"
    then have "set (sort_key f xs) = {}" by simp
    then show False using assms by simp
  qed
  then obtain z zs where z: "sort_key f xs = z # zs"
    by (cases "sort_key f xs") auto
  have "sorted (map f (z # zs))"
    using sorted_sort_key[of f xs] z by simp
  then have le: "\<forall>y \<in> set (z # zs). f z \<le> f y"
    by auto
  have eq: "set (z # zs) = set xs"
    using set_sort[of f xs] z by simp
  have "z \<in> set xs"
    using eq by auto
  moreover have "\<forall>y \<in> set xs. f z \<le> f y"
    using le eq by blast
  ultimately show ?thesis
    using z by simp
qed

lemma map_filter_id_set:
  "set (List.map_filter id cs) = {x. Some x \<in> set cs}"
proof (induction cs)
  case Nil
  then show ?case by simp
next
  case (Cons c cs)
  then show ?case by (cases c) auto
qed

lemma probe_matches_Some:
  "probe_matches (Some (u, t)) x \<Longrightarrow> x = (u, Status 200)"
  by (cases x) (simp add: probe_matches_def split: if_splits)

lemma probe_matches_None:
  "probe_matches None x \<Longrightarrow> snd x \<noteq> Status 200"
  by (simp add: probe_matches_def split: if_splits)

lemma probe_matches_failed:
  "probe_matches c x \<Longrightarrow> snd x \<noteq> Status 200 \<Longrightarrow> c = None"
  by (simp add: probe_matches_def split: if_splits)

lemma all2_success_logged:
  "list_all2 probe_matches cs new \<Longrightarrow> Some (u, t) \<in> set cs \<Longrightarrow> (u, Status 200) \<in> set new"
proof (induction rule: list_all2_induct)
  case Nil
  then show ?case by simp
next
  case (Cons c cs x new)
  show ?case
  proof (cases "c = Some (u, t)")
    case True
    with Cons.hyps(1) have "x = (u, Status 200)"
      by (simp add: probe_matches_Some)
    then show ?thesis by simp
  next
    case False
    with Cons.prems have "Some (u, t) \<in> set cs" by auto
    then show ?thesis using Cons.IH by simp
  qed
qed

lemma all2_none_iff:
  "list_all2 probe_matches cs new \<Longrightarrow>
     (List.map_filter id cs = []) = list_all (\<lambda>x. snd x \<noteq> Status 200) new"
proof (induction rule: list_all2_induct)
  case Nil
  then show ?case by simp
next
  case (Cons c cs x new)
  show ?case
  proof (cases c)
    case None
    with Cons.hyps(1) have "snd x \<noteq> Status 200"
      by (simp add: probe_matches_None)
    with None Cons.IH show ?thesis by simp
  next
    case (Some r)
    with Cons.hyps(1) have "snd x = Status 200"
      using probe_matches_failed[of c x] by auto
    with Some show ?thesis by simp
  qed
qed

lemma proxies_to_test_not_excluded:
  "u \<in> set (proxies_to_test exclude_urls max_test s) \<Longrightarrow> u \<notin> set (get_default exclude_urls [])"
  by (auto simp: proxies_to_test_def py_take_def Let_def dest: in_set_takeD split: if_splits)

text \<open>
  C6. With a positive \<^verbatim>\<open>max_concurrent\<close>, \<^verbatim>\<open>find_fastest_working_proxy\<close> returns.
  Each task's result is a pair exactly when its probe had status 200
  (\<open>probe_matches\<close>), and then the latency in it is the difference of the task's two
  readings of the clock (\<open>test_proxy_result\<close>). The call returns nothing exactly when
  no probe had status 200; otherwise it returns the result of a task whose probe had
  status 200, with that task's latency, and no task's latency is smaller.
\<close>

theorem find_fastest_working_proxy_fastest:
  assumes "0 < max_concurrent"
  shows "let s1 = ensure_fresh_proxies e s;
             to_test = proxies_to_test exclude_urls max_test s1;
             completed = fst (gather_tests e to_test s1);
             s2 = snd (gather_tests e to_test s1)
         in \<exists>r new.
              find_fastest_working_proxy e exclude_urls max_test max_concurrent s = Some (Inr r, s2) \<and>
              probe_log s2 = probe_log s @ new \<and> map fst new = to_test \<and>
              list_all2 probe_matches completed new \<and>
              (r = None) = list_all (\<lambda>x. snd x \<noteq> Status 200) new \<and>
              (case r of
                 None \<Rightarrow> True
               | Some (u, t) \<Rightarrow>
                   (u, Status 200) \<in> set new \<and> Some (u, t) \<in> set completed \<and>
                   u \<notin> set (get_default exclude_urls []) \<and>
                   (\<forall>c \<in> set completed. case c of None \<Rightarrow> True | Some (u', t') \<Rightarrow> t \<le> t'))"
proof -
  let ?s1 = "ensure_fresh_proxies e s"
  let ?cands = "proxies_to_test exclude_urls max_test ?s1"
  obtain completed s2 where g: "gather_tests e ?cands ?s1 = (completed, s2)"
    by (cases "gather_tests e ?cands ?s1")
  from gather_tests_log[OF g] obtain new where new: "probe_log s2 = probe_log s @ new"
    "map fst new = ?cands" "list_all2 probe_matches completed new"
    by (auto simp del: ensure_fresh_proxies_frame simp add: ensure_fresh_proxies_frame(1))
  let ?results = "List.map_filter id completed"
  let ?r = "if ?results = [] then None else Some (hd (sort_key snd ?results))"
  have run: "find_fastest_working_proxy e exclude_urls max_test max_concurrent s = Some (Inr ?r, s2)"
  proof (cases "?cands = []")
    case True
    with g have "completed = []" "s2 = ?s1" by simp_all
    with True assms show ?thesis
      by (simp add: find_fastest_working_proxy_def Let_def)
  next
    case False
    with g assms show ?thesis
      by (simp add: find_fastest_working_proxy_def Let_def)
  qed
  have none: "(?r = None) = list_all (\<lambda>x. snd x \<noteq> Status 200) new"
    using all2_none_iff[OF new(3)] by simp
  have win: "case ?r of
              None \<Rightarrow> True
            | Some (u, t) \<Rightarrow>
                (u, Status 200) \<in> set new \<and> Some (u, t) \<in> set completed \<and>
                u \<notin> set (get_default exclude_urls []) \<and>
                (\<forall>c \<in> set completed. case c of None \<Rightarrow> True | Some (u', t') \<Rightarrow> t \<le> t')"
  proof (cases "?results = []")
    case True
    then show ?thesis by simp
  next
    case False
    obtain u t where w: "hd (sort_key snd ?results) = (u, t)"
      by (cases "hd (sort_key snd ?results)")
    from hd_sort_key_min[OF False, of snd] w
    have mem: "(u, t) \<in> set ?results" and least: "\<forall>y \<in> set ?results. t \<le> snd y"
      by simp_all
    from mem have c: "Some (u, t) \<in> set completed"
      by (simp add: map_filter_id_set)
    have logged: "(u, Status 200) \<in> set new"
      by (rule all2_success_logged[OF new(3) c])
    then have "u \<in> set (map fst new)"
      by (metis fst_conv image_eqI set_map)
    then have ex: "u \<notin> set (get_default exclude_urls [])"
      using new(2) proxies_to_test_not_excluded by simp
    have all: "\<forall>c \<in> set completed. case c of None \<Rightarrow> True | Some (u', t') \<Rightarrow> t \<le> t'"
    proof
      fix c assume cin: "c \<in> set completed"
      show "case c of None \<Rightarrow> True | Some (u', t') \<Rightarrow> t \<le> t'"
      proof (cases c)
        case None
        then show ?thesis by simp
      next
        case (Some y)
        with cin have "y \<in> set ?results"
          by (simp add: map_filter_id_set)
        with least have "t \<le> snd y" by simp
        with Some show ?thesis by (cases y) simp
      qed
    qed
    from False w c logged ex all show ?thesis by simp
  qed
  have main: "\<exists>r new.
          find_fastest_working_proxy e exclude_urls max_test max_concurrent s = Some (Inr r, s2) \<and>
          probe_log s2 = probe_log s @ new \<and> map fst new = ?cands \<and>
          list_all2 probe_matches completed new \<and>
          (r = None) = list_all (\<lambda>x. snd x \<noteq> Status 200) new \<and>
          (case r of
             None \<Rightarrow> True
           | Some (u, t) \<Rightarrow>
               (u, Status 200) \<in> set new \<and> Some (u, t) \<in> set completed \<and>
               u \<notin> set (get_default exclude_urls []) \<and>
               (\<forall>c \<in> set completed. case c of None \<Rightarrow> True | Some (u', t') \<Rightarrow> t \<le> t'))"
    by (rule exI[of _ ?r], rule exI[of _ new]) (simp only: run new none win simp_thms)
  show ?thesis
    unfolding Let_def g fst_conv snd_conv by (rule main)
qed

theorem find_fastest_working_proxy_fastest_witness:
  "find_fastest_working_proxy race_env None 100 20 sample_sys
     = Some (Inr (Some (''socks5://c:3'', 1 / 5)),
             snd (gather_tests race_env [''socks5://a:1'', ''socks5://b:2'', ''socks5://c:3'']
                    (ensure_fresh_proxies race_env sample_sys)))
   \<and> fst (gather_tests race_env [''socks5://a:1'', ''socks5://b:2'', ''socks5://c:3'']
                    (ensure_fresh_proxies race_env sample_sys))
     = [None, Some (''socks5://b:2'', 1 / 2), Some (''socks5://c:3'', 1 / 5)]"
proof -
  have pos: "(0::int) < 20" by simp
  have cands: "proxies_to_test None 100 (ensure_fresh_proxies race_env sample_sys)
      = [''socks5://a:1'', ''socks5://b:2'', ''socks5://c:3'']"
    by (simp add: proxies_to_test_def py_take_def sample_defs pool_defs)
  have res: "fst (gather_tests race_env [''socks5://a:1'', ''socks5://b:2'', ''socks5://c:3'']
                    (ensure_fresh_proxies race_env sample_sys))
     = [None, Some (''socks5://b:2'', 1 / 2), Some (''socks5://c:3'', 1 / 5)]"
    by (simp add: test_proxy_def case_prod_beta sample_defs pool_defs)
  from find_fastest_working_proxy_fastest[OF pos, of race_env sample_sys None 100]
  show ?thesis
    unfolding Let_def cands res
    by (auto simp: probe_matches_def split: if_splits)
qed

end
